theory Spec2Isabelle
  imports Main "HOL-Library.Sublist"
begin

section \<open>Python values and exceptions\<close>

text \<open>
  The embedding follows \<^verbatim>\<open>madlibs_cli.py\<close>. A Python \<^verbatim>\<open>str\<close> is a \<^typ>\<open>string\<close>, one
  \<^typ>\<open>char\<close> per code point, so the model covers text whose code points are below 256.
  The value returned by \<^verbatim>\<open>json.loads\<close> is a \<open>json\<close> tree; an object keeps its members as an
  association list and a member is read with \<^const>\<open>map_of\<close>.
\<close>

datatype py_float = FloatVal int int | Infinity | NegInfinity | NaN

datatype json =
    JNull
  | JBool bool
  | JInt int
  | JFloat py_float
  | JStr string
  | JArr "json list"
  | JObj "(string \<times> json) list"

text \<open>
  The exceptions the modelled functions raise. \<open>Unmodelled\<close> is not a Python exception: it
  marks what this model says nothing about, namely the replacement fields of
  \<^verbatim>\<open>str.format\<close> that use a conversion, a format specification or an index access, or an
  attribute access other than one listed method, and answers stored under a key that is
  not a string.
\<close>

datatype exn =
    ValueError string
  | KeyError string
  | IndexError
  | TypeError
  | AttributeError
  | EOFError
  | RuntimeError string
  | Unmodelled

section \<open>String primitives\<close>

text \<open>\<^verbatim>\<open>str.isspace\<close> on one code point below 256.\<close>

definition isspace :: "char \<Rightarrow> bool" where
  "isspace c \<longleftrightarrow> (of_char c :: nat) \<in> {9, 10, 11, 12, 13, 28, 29, 30, 31, 32, 133, 160}"

definition lstrip :: "string \<Rightarrow> string" where
  "lstrip s = dropWhile isspace s"

definition rstrip :: "string \<Rightarrow> string" where
  "rstrip s = rev (dropWhile isspace (rev s))"

text \<open>\<^verbatim>\<open>str.strip()\<close> with no argument.\<close>

definition strip :: "string \<Rightarrow> string" where
  "strip s = rstrip (lstrip s)"

text \<open>\<^verbatim>\<open>str.lower()\<close>: the ASCII capitals and the Latin-1 capitals move up by 32.\<close>

definition lower_char :: "char \<Rightarrow> char" where
  "lower_char c =
     (let n = (of_char c :: nat)
      in if (65 \<le> n \<and> n \<le> 90) \<or> (192 \<le> n \<and> n \<le> 222 \<and> n \<noteq> 215)
         then char_of (n + 32) else c)"

definition lower :: "string \<Rightarrow> string" where
  "lower s = map lower_char s"

definition startswith :: "string \<Rightarrow> string \<Rightarrow> bool" where
  "startswith s p \<longleftrightarrow> take (length p) s = p"

text \<open>
  \<^verbatim>\<open>str.split(sep)\<close> for a non-empty separator: the text is cut at every occurrence of
  \<open>sep\<close>, found from the left and not overlapping. (Python raises on an empty separator;
  the only separator used here is the fence.)
\<close>

function split_str :: "string \<Rightarrow> string \<Rightarrow> string list" where
  "split_str sep [] = [[]]"
| "split_str sep (c # cs) =
     (if sep \<noteq> [] \<and> take (length sep) (c # cs) = sep
      then [] # split_str sep (drop (length sep) (c # cs))
      else (case split_str sep cs of
              [] \<Rightarrow> [[c]]
            | chunk # chunks \<Rightarrow> (c # chunk) # chunks))"
  by pat_completeness auto
termination
  by (relation "measure (\<lambda>(sep, s). length s)") auto

section \<open>strip\_code\_fence\<close>

definition fence :: string where
  "fence = ''```''"

text \<open>
  The \<^verbatim>\<open>for chunk in parts\<close> loop: the first chunk that, stripped, is neither empty nor
  the word json in any case; \<open>None\<close> when the loop ends without returning.
\<close>

fun first_chunk :: "string list \<Rightarrow> string option" where
  "first_chunk [] = None"
| "first_chunk (chunk # parts) =
     (let chunk' = strip chunk
      in if chunk' = [] \<or> lower chunk' = ''json'' then first_chunk parts else Some chunk')"

definition strip_code_fence :: "string \<Rightarrow> string" where
  "strip_code_fence text =
     (let cleaned = strip text
      in if startswith cleaned fence
         then (case first_chunk (split_str fence cleaned) of
                 Some chunk \<Rightarrow> chunk
               | None \<Rightarrow> cleaned)
         else cleaned)"

section \<open>The template and parse\_template\_payload\<close>

text \<open>
  The dataclasses check no types, so every field holds whatever value the payload gave.
\<close>

record Blank =
  key :: json
  prompt :: json

record StoryTemplate =
  title :: json
  blanks :: "Blank list"
  skeleton :: json

text \<open>
  \<^verbatim>\<open>value[name]\<close> for a string subscript: a dict looks the name up and raises KeyError
  when it is absent; every other JSON value raises TypeError.
\<close>

fun getitem :: "json \<Rightarrow> string \<Rightarrow> exn + json" where
  "getitem (JObj members) name =
     (case map_of members name of
        None \<Rightarrow> Inl (KeyError name)
      | Some v \<Rightarrow> Inr v)"
| "getitem v name = Inl TypeError"

text \<open>
  \<^verbatim>\<open>for item in value\<close>: a list gives its elements, a dict its keys (each once, in
  the order of first occurrence), a string its characters; nothing else is iterable.
\<close>

fun iterate :: "json \<Rightarrow> exn + json list" where
  "iterate (JArr items) = Inr items"
| "iterate (JObj members) = Inr (map JStr (rev (remdups (rev (map fst members)))))"
| "iterate (JStr s) = Inr (map (\<lambda>c. JStr [c]) s)"
| "iterate v = Inl TypeError"

text \<open>\<^verbatim>\<open>Blank(key=item["key"], prompt=item["prompt"])\<close>\<close>

definition make_blank :: "json \<Rightarrow> exn + Blank" where
  "make_blank item =
     (case getitem item ''key'' of
        Inl e \<Rightarrow> Inl e
      | Inr k \<Rightarrow>
          (case getitem item ''prompt'' of
             Inl e \<Rightarrow> Inl e
           | Inr p \<Rightarrow> Inr \<lparr>key = k, prompt = p\<rparr>))"

text \<open>The list comprehension over \<^verbatim>\<open>blanks_data\<close>, left to right.\<close>

fun make_blanks :: "json list \<Rightarrow> exn + Blank list" where
  "make_blanks [] = Inr []"
| "make_blanks (item # items) =
     (case make_blank item of
        Inl e \<Rightarrow> Inl e
      | Inr b \<Rightarrow>
          (case make_blanks items of
             Inl e \<Rightarrow> Inl e
           | Inr bs \<Rightarrow> Inr (b # bs)))"

text \<open>The body of the second \<^verbatim>\<open>try\<close> block, before the exceptions are caught.\<close>

definition construct_template :: "json \<Rightarrow> exn + StoryTemplate" where
  "construct_template as_dict =
     (case getitem as_dict ''blanks'' of
        Inl e \<Rightarrow> Inl e
      | Inr blanks_data \<Rightarrow>
          (case iterate blanks_data of
             Inl e \<Rightarrow> Inl e
           | Inr items \<Rightarrow>
               (case make_blanks items of
                  Inl e \<Rightarrow> Inl e
                | Inr bs \<Rightarrow>
                    (case getitem as_dict ''title'' of
                       Inl e \<Rightarrow> Inl e
                     | Inr t \<Rightarrow>
                         (case getitem as_dict ''skeleton'' of
                            Inl e \<Rightarrow> Inl e
                          | Inr sk \<Rightarrow> Inr \<lparr>title = t, blanks = bs, skeleton = sk\<rparr>)))))"

text \<open>\<^verbatim>\<open>except (KeyError, TypeError)\<close>: both become one ValueError.\<close>

fun missed_fields :: "exn \<Rightarrow> exn" where
  "missed_fields (KeyError name) = ValueError ''Gemini response JSON missed required fields.''"
| "missed_fields TypeError = ValueError ''Gemini response JSON missed required fields.''"
| "missed_fields e = e"

text \<open>
  \<^verbatim>\<open>parse_template_payload\<close> from the value that \<^verbatim>\<open>json.loads\<close> returned on: the second
  \<^verbatim>\<open>try\<close> block and the count check.
\<close>

definition parse_template_value :: "json \<Rightarrow> exn + StoryTemplate" where
  "parse_template_value as_dict =
     (case construct_template as_dict of
        Inl e \<Rightarrow> Inl (missed_fields e)
      | Inr template \<Rightarrow>
          if \<not> (8 \<le> length (blanks template) \<and> length (blanks template) \<le> 10)
          then Inl (ValueError ''Template must contain between 8 and 10 blanks.'')
          else Inr template)"

text \<open>
  The whole function. \<^verbatim>\<open>json.loads\<close> is a library function and is taken as the parameter
  \<open>loads\<close>, which returns \<open>None\<close> where the library raises JSONDecodeError.
\<close>

definition parse_template_payload :: "(string \<Rightarrow> json option) \<Rightarrow> string \<Rightarrow> exn + StoryTemplate" where
  "parse_template_payload loads payload =
     (case loads payload of
        None \<Rightarrow> Inl (ValueError ''Gemini response was not valid JSON.'')
      | Some as_dict \<Rightarrow> parse_template_value as_dict)"

section \<open>StoryTemplate.build\<close>

text \<open>
  \<^verbatim>\<open>self.skeleton.format(**answers)\<close> is Python's format-string engine called with keyword
  arguments only. It reads the string from the left as a sequence of markup items: literal
  characters (a doubled brace stands for one brace), and replacement fields in braces.
  A field is looked up the moment it has been read, so the first failure from the left is
  the one raised. \<open>markup\<close> produces the items; \<open>Err\<close> is the item at which the reader raises.
  The first argument is \<open>None\<close> in literal text and \<open>Some name\<close> inside a field, \<open>name\<close>
  being the characters of the field read so far, last first.
\<close>

datatype item = Lit char | Field string | Err exn

fun markup :: "string option \<Rightarrow> string \<Rightarrow> item list" where
  "markup None [] = []"
| "markup None (c # cs) =
     (if c = CHR ''{'' then
        (case cs of
           [] \<Rightarrow> [Err (ValueError ''Single '{' encountered in format string'')]
         | d # ds \<Rightarrow> if d = CHR ''{'' then Lit c # markup None ds else markup (Some []) cs)
      else if c = CHR ''}'' then
        (case cs of
           [] \<Rightarrow> [Err (ValueError ''Single '}' encountered in format string'')]
         | d # ds \<Rightarrow>
             if d = CHR ''}'' then Lit c # markup None ds
             else [Err (ValueError ''Single '}' encountered in format string'')])
      else Lit c # markup None cs)"
| "markup (Some name) [] = [Err (ValueError ''expected '}' before end of string'')]"
| "markup (Some name) (c # cs) =
     (if c = CHR ''}'' then Field (rev name) # markup None cs
      else if c = CHR ''{'' then [Err (ValueError ''unexpected '{' in field name'')]
      else if c = CHR ''['' \<or> c = CHR '':'' \<or> c = CHR ''!'' then [Err Unmodelled]
      else markup (Some (c # name)) cs)"

definition isdecimal :: "char \<Rightarrow> bool" where
  "isdecimal c \<longleftrightarrow> 48 \<le> (of_char c :: nat) \<and> (of_char c :: nat) \<le> 57"

text \<open>
  The first part of a field name is tried as an index. The engine adds up its digits from
  the left: a character that is no digit ends the attempt (the name is then a keyword),
  and a sum that would pass the largest machine integer raises at once, so a name that
  opens with too many digits raises even when letters follow. The largest integer is
  that of a 64-bit build.
\<close>

definition PY_SSIZE_T_MAX :: int where
  "PY_SSIZE_T_MAX = 9223372036854775807"

datatype index = NotInteger | TooManyDigits | Index int

fun get_integer_loop :: "int \<Rightarrow> string \<Rightarrow> index" where
  "get_integer_loop accumulator [] = Index accumulator"
| "get_integer_loop accumulator (c # cs) =
     (if \<not> isdecimal c then NotInteger
      else (let digitval = (of_char c :: int) - 48
            in if accumulator > (PY_SSIZE_T_MAX - digitval) div 10 then TooManyDigits
               else get_integer_loop (accumulator * 10 + digitval) cs))"

definition get_integer :: "string \<Rightarrow> index" where
  "get_integer s = (if s = [] then NotInteger else get_integer_loop 0 s)"

text \<open>
  What follows the first part of a name is a chain of attribute and index accesses on the
  answer. One case is modelled: a single attribute that is one of the methods below. The
  field is then replaced by the text Python prints for a bound method, which ends with
  the address of the answer object. Every other chain is left unmodelled.
\<close>

definition str_methods :: "string list" where
  "str_methods = [''capitalize'', ''lower'', ''strip'', ''title'', ''upper'']"

definition bound_method_text :: "string \<Rightarrow> string \<Rightarrow> string" where
  "bound_method_text name address =
     ''<built-in method '' @ name @ '' of str object at '' @ address @ ''>''"

definition get_attribute :: "string \<Rightarrow> string \<Rightarrow> exn + string" where
  "get_attribute rest address =
     (case rest of
        [] \<Rightarrow> Inl Unmodelled
      | c # name \<Rightarrow>
          if c = CHR ''.'' \<and> name \<in> set str_methods
          then Inr (bound_method_text name address)
          else Inl Unmodelled)"

definition is_separator :: "char \<Rightarrow> bool" where
  "is_separator c \<longleftrightarrow> c = CHR ''.'' \<or> c = CHR ''[''"

text \<open>
  The text a field is replaced by. The name is cut at its first dot or bracket. An empty
  or numeric first part is positional, and no positional argument is passed, so it raises
  IndexError. Any other first part is a keyword, looked up in \<open>kwargs\<close>. The argument
  \<open>address\<close> gives, for each keyword, the address of the object that \<open>kwargs\<close> holds under
  it, as Python prints it: two dicts that are equal need not hold the same objects.
\<close>

definition get_field :: "(string \<Rightarrow> string) \<Rightarrow> string \<Rightarrow> (string \<rightharpoonup> string) \<Rightarrow> exn + string" where
  "get_field address name kwargs =
     (let first = takeWhile (\<lambda>c. \<not> is_separator c) name;
          rest = dropWhile (\<lambda>c. \<not> is_separator c) name
      in case get_integer first of
           TooManyDigits \<Rightarrow> Inl (ValueError ''Too many decimal digits in format string'')
         | Index i \<Rightarrow> Inl IndexError
         | NotInteger \<Rightarrow>
             if first = [] then Inl IndexError
             else (case kwargs first of
                     None \<Rightarrow> Inl (KeyError first)
                   | Some v \<Rightarrow> if rest = [] then Inr v else get_attribute rest (address first)))"

fun substitute :: "(string \<Rightarrow> string) \<Rightarrow> (string \<rightharpoonup> string) \<Rightarrow> item list \<Rightarrow> exn + string" where
  "substitute address kwargs [] = Inr []"
| "substitute address kwargs (Lit c # items) =
     (case substitute address kwargs items of
        Inl e \<Rightarrow> Inl e
      | Inr out \<Rightarrow> Inr (c # out))"
| "substitute address kwargs (Field name # items) =
     (case get_field address name kwargs of
        Inl e \<Rightarrow> Inl e
      | Inr v \<Rightarrow>
          (case substitute address kwargs items of
             Inl e \<Rightarrow> Inl e
           | Inr out \<Rightarrow> Inr (v @ out)))"
| "substitute address kwargs (Err e # items) = Inl e"

definition str_format :: "(string \<Rightarrow> string) \<Rightarrow> string \<Rightarrow> (string \<rightharpoonup> string) \<Rightarrow> exn + string" where
  "str_format address s kwargs = substitute address kwargs (markup None s)"

text \<open>
  \<^verbatim>\<open>StoryTemplate.build\<close>: only a \<^verbatim>\<open>str\<close> has a \<^verbatim>\<open>format\<close> method. The answers are
  a dict from strings to strings, and \<open>address\<close> says where its values live.
\<close>

definition build :: "(string \<Rightarrow> string) \<Rightarrow> StoryTemplate \<Rightarrow> (string \<rightharpoonup> string) \<Rightarrow> exn + string" where
  "build address template answers =
     (case skeleton template of
        JStr s \<Rightarrow> str_format address s answers
      | _ \<Rightarrow> Inl AttributeError)"

section \<open>prompt\_for\_words and build\_story\<close>

text \<open>
  \<^verbatim>\<open>prompt_for_words\<close> asks one line per blank. Standard input is the list of the lines
  still to be read (what is printed is left out). \<^verbatim>\<open>blank.prompt.strip()\<close> needs a string,
  \<^verbatim>\<open>input\<close> raises EOFError when no line is left, and the assignment needs a hashable
  key. A key that is a number, a boolean or null is stored by Python; the answers are
  modelled as a dict with string keys, so that case is left unmodelled. The third argument
  of the loop is the dict built so far.
\<close>

fun prompt_loop :: "Blank list \<Rightarrow> string list \<Rightarrow> (string \<rightharpoonup> string) \<Rightarrow> exn + (string \<rightharpoonup> string)" where
  "prompt_loop [] stdin answers = Inr answers"
| "prompt_loop (blank # rest) stdin answers =
     (case prompt blank of
        JStr p \<Rightarrow>
          (case stdin of
             [] \<Rightarrow> Inl EOFError
           | line # lines \<Rightarrow>
               (case key blank of
                  JStr k \<Rightarrow> prompt_loop rest lines (answers(k \<mapsto> strip line))
                | JArr xs \<Rightarrow> Inl TypeError
                | JObj members \<Rightarrow> Inl TypeError
                | _ \<Rightarrow> Inl Unmodelled))
      | _ \<Rightarrow> Inl AttributeError)"

definition prompt_for_words :: "Blank list \<Rightarrow> string list \<Rightarrow> exn + (string \<rightharpoonup> string)" where
  "prompt_for_words bs stdin = prompt_loop bs stdin Map.empty"

text \<open>
  The text of a KeyError is the \<^verbatim>\<open>repr\<close> of the key: the key between single quotes when
  all its characters are printable and none is a single quote or a backslash. Other keys
  are escaped by Python and left unmodelled here.
\<close>

definition plain_char :: "char \<Rightarrow> bool" where
  "plain_char c \<longleftrightarrow>
     (let n = (of_char c :: nat)
      in (32 \<le> n \<and> n \<le> 126 \<and> n \<noteq> 39 \<and> n \<noteq> 92) \<or> (161 \<le> n \<and> n \<noteq> 173))"

definition py_repr :: "string \<Rightarrow> string option" where
  "py_repr s = (if list_all plain_char s then Some ([CHR 0x27] @ s @ [CHR 0x27]) else None)"

text \<open>\<^verbatim>\<open>except KeyError as exc\<close>: only a KeyError is caught and raised again as RuntimeError.\<close>

fun missing_answer :: "exn \<Rightarrow> exn" where
  "missing_answer (KeyError k) =
     (case py_repr k of
        Some r \<Rightarrow> RuntimeError (''Missing answer for placeholder: '' @ r)
      | None \<Rightarrow> Unmodelled)"
| "missing_answer e = e"

text \<open>
  \<open>address\<close> says where the strings that \<^verbatim>\<open>prompt_for_words\<close> stored came to live.
\<close>

definition build_story :: "(string \<Rightarrow> string) \<Rightarrow> StoryTemplate \<Rightarrow> string list \<Rightarrow> exn + string" where
  "build_story address template stdin =
     (case prompt_for_words (blanks template) stdin of
        Inl e \<Rightarrow> Inl e
      | Inr answers \<Rightarrow>
          (case build address template answers of
             Inl e \<Rightarrow> Inl (missing_answer e)
           | Inr story \<Rightarrow> Inr story))"

section \<open>Vocabulary of the properties\<close>

text \<open>
  A skeleton as its author means it: pieces of literal text and placeholders. Written as
  a format string, a brace of the text is doubled and a placeholder stands in braces.
\<close>

datatype segment = Text string | Placeholder string

fun escape :: "string \<Rightarrow> string" where
  "escape [] = []"
| "escape (c # cs) =
     (if c = CHR ''{'' \<or> c = CHR ''}'' then c # c # escape cs else c # escape cs)"

fun skeleton_text :: "segment list \<Rightarrow> string" where
  "skeleton_text [] = []"
| "skeleton_text (Text s # segments) = escape s @ skeleton_text segments"
| "skeleton_text (Placeholder k # segments) = ''{'' @ k @ ''}'' @ skeleton_text segments"

fun placeholders :: "segment list \<Rightarrow> string list" where
  "placeholders [] = []"
| "placeholders (Text s # segments) = placeholders segments"
| "placeholders (Placeholder k # segments) = k # placeholders segments"

fun plain_text :: "segment list \<Rightarrow> string" where
  "plain_text [] = []"
| "plain_text (Text s # segments) = s @ plain_text segments"
| "plain_text (Placeholder k # segments) = plain_text segments"

text \<open>
  The expected output: the literal text kept and every placeholder replaced by its
  answer.
\<close>

fun filled :: "(string \<rightharpoonup> string) \<Rightarrow> segment list \<Rightarrow> string" where
  "filled answers [] = []"
| "filled answers (Text s # segments) = s @ filled answers segments"
| "filled answers (Placeholder k # segments) =
     (case answers k of None \<Rightarrow> [] | Some v \<Rightarrow> v) @ filled answers segments"

text \<open>The items the reader should find in such a skeleton.\<close>

fun items_of :: "segment list \<Rightarrow> item list" where
  "items_of [] = []"
| "items_of (Text s # segments) = map Lit s @ items_of segments"
| "items_of (Placeholder k # segments) = Field k # items_of segments"

text \<open>
  A plain name has none of the characters that end or structure a field. A keyword name
  is a plain name that is not empty and is not read as an index.
\<close>

definition plain_name :: "string \<Rightarrow> bool" where
  "plain_name k \<longleftrightarrow>
     list_all (\<lambda>c. c \<noteq> CHR ''{'' \<and> c \<noteq> CHR ''}'' \<and> c \<noteq> CHR ''['' \<and> c \<noteq> CHR '':'' \<and>
                   c \<noteq> CHR ''!'' \<and> c \<noteq> CHR ''.'') k"

definition keyword_name :: "string \<Rightarrow> bool" where
  "keyword_name k \<longleftrightarrow> plain_name k \<and> k \<noteq> [] \<and> get_integer k = NotInteger"

text \<open>
  The identifier pattern of the specification: letters, digits and underscore, not empty
  and not all digits. The program never tests a key against it.
\<close>

definition isalnum :: "char \<Rightarrow> bool" where
  "isalnum c \<longleftrightarrow>
     (let n = (of_char c :: nat)
      in (48 \<le> n \<and> n \<le> 57) \<or> (65 \<le> n \<and> n \<le> 90) \<or> (97 \<le> n \<and> n \<le> 122))"

definition is_identifier :: "string \<Rightarrow> bool" where
  "is_identifier k \<longleftrightarrow>
     k \<noteq> [] \<and> list_all (\<lambda>c. isalnum c \<or> c = CHR ''_'') k \<and> \<not> list_all isdecimal k"

definition has_brace :: "string \<Rightarrow> bool" where
  "has_brace s \<longleftrightarrow> CHR ''{'' \<in> set s \<or> CHR ''}'' \<in> set s"

text \<open>The blanks a payload with keys \<open>ks\<close> and prompts \<open>ps\<close> is turned into.\<close>

definition blanks_of :: "json list \<Rightarrow> json list \<Rightarrow> Blank list" where
  "blanks_of ks ps = map2 (\<lambda>k p. \<lparr>key = k, prompt = p\<rparr>) ks ps"

subsection \<open>Sample payloads\<close>

definition blank_item :: "string \<Rightarrow> json" where
  "blank_item k = JObj [(''key'', JStr k), (''prompt'', JStr (''Give me: '' @ k))]"

definition payload :: "json \<Rightarrow> string list \<Rightarrow> string \<Rightarrow> json" where
  "payload t ks sk = JObj [(''title'', t), (''blanks'', JArr (map blank_item ks)), (''skeleton'', JStr sk)]"

text \<open>The template that \<open>payload t ks sk\<close> describes.\<close>

definition template_of :: "json \<Rightarrow> string list \<Rightarrow> string \<Rightarrow> StoryTemplate" where
  "template_of t ks sk =
     \<lparr>title = t,
      blanks = blanks_of (map JStr ks) (map (\<lambda>k. JStr (''Give me: '' @ k)) ks),
      skeleton = JStr sk\<rparr>"

definition sample_keys :: "string list" where
  "sample_keys = [''animal'', ''adjective'', ''place'', ''verb'', ''food'', ''colour'', ''name'', ''number'']"

definition sample_segments :: "segment list" where
  "sample_segments =
     [Text ''A '', Placeholder ''adjective'', Text '' '', Placeholder ''animal'',
      Text '' from '', Placeholder ''place'', Text '' likes to '', Placeholder ''verb'',
      Text '' with '', Placeholder ''name'', Text '', eats '', Placeholder ''number'',
      Text '' '', Placeholder ''colour'', Text '' '', Placeholder ''food'', Text ''.'']"

definition sample_skeleton :: string where
  "sample_skeleton =
     ''A {adjective} {animal} from {place} likes to {verb} with {name}, eats {number} {colour} {food}.''"

definition sample_answers :: "string \<rightharpoonup> string" where
  "sample_answers =
     map_of [(''animal'', ''walrus''), (''adjective'', ''wild''), (''place'', ''Oslo''),
             (''verb'', ''sing''), (''food'', ''plums''), (''colour'', ''red''),
             (''name'', ''Ada''), (''number'', ''nine'')]"

text \<open>What the player types, one line per blank, and two places where the answers may live.\<close>

definition sample_lines :: "string list" where
  "sample_lines = [''walrus'', ''wild'', ''Oslo'', ''sing'', ''plums'', ''red'', ''Ada'', ''nine'']"

definition here :: "string \<Rightarrow> string" where
  "here k = ''0x7f65e10a0800''"

definition there :: "string \<Rightarrow> string" where
  "there k = ''0x7f65e10cdfb0''"

definition repeated_keys :: "string list" where
  "repeated_keys = [''animal'', ''adjective'', ''animal'', ''verb'', ''food'', ''colour'', ''name'', ''number'']"

definition malformed_keys :: "string list" where
  "malformed_keys = [''animal'', ''9'', ''two words'', [], ''food'', ''colour'', ''name'', ''number'']"

definition eleven_keys :: "string list" where
  "eleven_keys = sample_keys @ [''sound'', ''tool'', ''city'']"

definition ghost_segments :: "segment list" where
  "ghost_segments = [Text ''A '', Placeholder ''ghost'', Text '' chased the '', Placeholder ''animal'', Text ''.'']"

definition short_segments :: "segment list" where
  "short_segments = [Text ''A wild '', Placeholder ''animal'', Text '' appeared.'']"

text \<open>Skeletons outside that form: a stray brace, positional fields, a method of the answer.\<close>

definition stray_skeleton :: string where
  "stray_skeleton = sample_skeleton @ '' :-}''"

definition positional_skeleton :: string where
  "positional_skeleton = ''{0} chased the {ghost}.''"

definition numbered_skeleton :: string where
  "numbered_skeleton = ''The {9} lives.''"

definition numbered_answers :: "string \<rightharpoonup> string" where
  "numbered_answers = map_of [(''9'', ''nine''), (''food'', ''plums'')]"

definition method_skeleton :: string where
  "method_skeleton = ''{animal.upper}''"

section \<open>The fence stripper\<close>

subsection \<open>Stripping is a projection onto a contiguous part\<close>

lemma rstrip_prefix: "prefix (rstrip t) t"
proof -
  have "rev t = takeWhile isspace (rev t) @ dropWhile isspace (rev t)" by simp
  then have "t = rev (dropWhile isspace (rev t)) @ rev (takeWhile isspace (rev t))"
    by (metis rev_append rev_rev_ident)
  then show ?thesis unfolding rstrip_def by (metis prefixI)
qed

lemma lstrip_suffix: "suffix (lstrip s) s"
  unfolding lstrip_def by (rule suffix_dropWhile)

lemma lstrip_head: "lstrip s = [] \<or> \<not> isspace (hd (lstrip s))"
  unfolding lstrip_def by (metis hd_dropWhile)

lemma rstrip_last: "rstrip s = [] \<or> \<not> isspace (last (rstrip s))"
  unfolding rstrip_def by (metis hd_dropWhile last_rev rev_is_Nil_conv)

lemma lstrip_fixed: "s = [] \<or> \<not> isspace (hd s) \<Longrightarrow> lstrip s = s"
  unfolding lstrip_def by (cases s) auto

lemma rstrip_fixed: "s = [] \<or> \<not> isspace (last s) \<Longrightarrow> rstrip s = s"
  unfolding rstrip_def by (cases s rule: rev_cases) auto

lemma strip_head: "strip s = [] \<or> \<not> isspace (hd (strip s))"
proof (cases "strip s = []")
  case False
  obtain zs where z: "lstrip s = strip s @ zs"
    using rstrip_prefix [of "lstrip s"] unfolding strip_def prefix_def by blast
  with False have "hd (lstrip s) = hd (strip s)" by simp
  moreover from z False have "lstrip s \<noteq> []" by auto
  ultimately show ?thesis using lstrip_head [of s] by simp
qed simp

lemma strip_last: "strip s = [] \<or> \<not> isspace (last (strip s))"
  unfolding strip_def by (rule rstrip_last)

lemma strip_strip: "strip (strip s) = strip s"
proof -
  have "lstrip (strip s) = strip s" using strip_head by (rule lstrip_fixed)
  moreover have "rstrip (strip s) = strip s" using strip_last by (rule rstrip_fixed)
  ultimately show ?thesis by (simp add: strip_def [of "strip s"])
qed

lemma strip_sublist: "sublist (strip s) s"
proof -
  have "sublist (strip s) (lstrip s)"
    unfolding strip_def using rstrip_prefix by (rule prefix_imp_sublist)
  moreover have "sublist (lstrip s) s"
    using lstrip_suffix by (rule suffix_imp_sublist)
  ultimately show ?thesis by (rule sublist_order.order.trans)
qed

lemma split_str_nonempty: "split_str sep s \<noteq> []"
  by (induction sep s rule: split_str.induct) (auto split: list.splits)

lemma split_str_hd_prefix: "prefix (hd (split_str sep s)) s"
  by (induction sep s rule: split_str.induct) (auto split: list.splits)

lemma split_str_no_sep:
  "sep \<noteq> [] \<Longrightarrow> chunk \<in> set (split_str sep s) \<Longrightarrow> \<not> sublist sep chunk"
proof (induction sep s arbitrary: chunk rule: split_str.induct)
  case (1 sep)
  then show ?case by simp
next
  case (2 sep c cs)
  show ?case
  proof (cases "take (length sep) (c # cs) = sep")
    case True
    with 2 show ?thesis by auto
  next
    case False
    obtain x xs where sp: "split_str sep cs = x # xs"
      using split_str_nonempty [of sep cs] by (cases "split_str sep cs") auto
    from False sp "2.prems" have ch: "chunk = c # x \<or> chunk \<in> set xs" by auto
    from False sp "2.IH"(2) "2.prems"(1)
    have ih: "\<And>ch. ch \<in> set (x # xs) \<Longrightarrow> \<not> sublist sep ch" by auto
    show ?thesis
    proof (cases "chunk = c # x")
      case True
      have "\<not> prefix sep (c # x)"
      proof
        assume p: "prefix sep (c # x)"
        have "prefix x cs" using split_str_hd_prefix [of sep cs] sp by simp
        then have "prefix (c # x) (c # cs)" by simp
        with p have "prefix sep (c # cs)" by (rule prefix_order.trans)
        then have "take (length sep) (c # cs) = sep"
          by (metis append_eq_conv_conj prefix_def)
        with False show False by simp
      qed
      moreover have "\<not> sublist sep x" using ih by simp
      ultimately show ?thesis using True by (simp add: sublist_Cons_right)
    next
      case False
      with ch ih show ?thesis by simp
    qed
  qed
qed

lemma first_chunk_Some:
  "first_chunk parts = Some ch \<Longrightarrow> \<exists>p \<in> set parts. ch = strip p"
  by (induction parts) (auto simp: Let_def split: if_splits)

lemma strip_no_fence:
  assumes "sep \<noteq> []" and "p \<in> set (split_str sep s)"
  shows "\<not> startswith (strip p) sep"
proof
  assume "startswith (strip p) sep"
  then have "prefix sep (strip p)"
    unfolding startswith_def by (metis append_take_drop_id prefixI)
  then have "sublist sep (strip p)" by (rule prefix_imp_sublist)
  then have "sublist sep p" using strip_sublist by (rule sublist_order.order.trans)
  with split_str_no_sep [OF assms] show False by simp
qed

text \<open>
  C8. Stripping the fence twice gives what stripping it once gives, for every text: the
  result is either a stripped chunk, which holds no fence, or the stripped text itself.
\<close>

theorem strip_code_fence_idempotent:
  "strip_code_fence (strip_code_fence x) = strip_code_fence x"
proof (cases "startswith (strip x) fence")
  case False
  then show ?thesis by (simp add: strip_code_fence_def strip_strip)
next
  case True
  show ?thesis
  proof (cases "first_chunk (split_str fence (strip x))")
    case None
    with True have "strip_code_fence x = strip x" by (simp add: strip_code_fence_def)
    moreover from None True have "strip_code_fence (strip x) = strip x"
      by (simp add: strip_code_fence_def strip_strip)
    ultimately show ?thesis by simp
  next
    case (Some ch)
    with True have r: "strip_code_fence x = ch" by (simp add: strip_code_fence_def)
    from Some obtain p where p: "p \<in> set (split_str fence (strip x))" "ch = strip p"
      using first_chunk_Some by blast
    have "fence \<noteq> []" by (simp add: fence_def)
    then have "\<not> startswith ch fence" using p strip_no_fence by simp
    moreover have "strip ch = ch" using p by (simp add: strip_strip)
    ultimately have "strip_code_fence ch = ch" by (simp add: strip_code_fence_def)
    with r show ?thesis by simp
  qed
qed

text \<open>Text that does not open with a fence is returned stripped and otherwise unchanged.\<close>

lemma strip_code_fence_no_fence:
  "\<not> startswith (strip x) fence \<Longrightarrow> strip_code_fence x = strip x"
  by (simp add: strip_code_fence_def)

subsection \<open>Fenced blocks\<close>

lemma split_str_sep: "sep \<noteq> [] \<Longrightarrow> split_str sep (sep @ rest) = [] # split_str sep rest"
  by (cases sep) simp_all

lemma split_str_skip:
  assumes "sep \<noteq> []" and "\<And>i. i < length x \<Longrightarrow> \<not> prefix sep (drop i (x @ rest))"
  shows "split_str sep (x @ rest) =
           (x @ hd (split_str sep rest)) # tl (split_str sep rest)"
  using assms(2)
proof (induction x)
  case Nil
  then show ?case by (simp add: split_str_nonempty)
next
  case (Cons c x)
  from Cons.prems [of 0] have "\<not> prefix sep (c # x @ rest)" by simp
  then have no: "take (length sep) (c # x @ rest) \<noteq> sep"
    by (metis append_take_drop_id prefixI)
  have "\<And>i. i < length x \<Longrightarrow> \<not> prefix sep (drop i (x @ rest))"
    using Cons.prems [of "Suc i" for i] by simp
  then have ih: "split_str sep (x @ rest) =
           (x @ hd (split_str sep rest)) # tl (split_str sep rest)"
    by (rule Cons.IH)
  from no ih show ?case by simp
qed

lemma no_fence_at:
  assumes "CHR 0x60 \<notin> set x" and "i < length x"
  shows "\<not> prefix fence (drop i (x @ rest))"
proof
  assume p: "prefix fence (drop i (x @ rest))"
  from assms(2) have "drop i (x @ rest) = (x ! i) # drop (Suc i) (x @ rest)"
    by (simp add: Cons_nth_drop_Suc nth_append)
  with p have "x ! i = CHR 0x60" by (simp add: fence_def)
  with assms show False by (metis nth_mem)
qed

lemma split_fenced:
  assumes "CHR 0x60 \<notin> set x"
  shows "split_str fence (fence @ x @ fence) = [[], x, []]"
proof -
  have f: "fence \<noteq> []" by (simp add: fence_def)
  have "split_str fence (x @ fence) =
          (x @ hd (split_str fence fence)) # tl (split_str fence fence)"
    using f no_fence_at [OF assms] by (rule split_str_skip)
  moreover have "split_str fence fence = [[], []]"
    using split_str_sep [OF f, of "[]"] by simp
  ultimately have "split_str fence (x @ fence) = [x, []]" by simp
  with split_str_sep [OF f, of "x @ fence"] show ?thesis by simp
qed

lemma rstrip_snoc_space: "isspace c \<Longrightarrow> rstrip (s @ [c]) = rstrip s"
  by (simp add: rstrip_def)

lemma strip_fixed: "s \<noteq> [] \<Longrightarrow> \<not> isspace (hd s) \<Longrightarrow> \<not> isspace (last s) \<Longrightarrow> strip s = s"
  by (simp add: strip_def lstrip_fixed rstrip_fixed)

lemma strip_stripped: "strip p = p \<Longrightarrow> p \<noteq> [] \<Longrightarrow> \<not> isspace (hd p) \<and> \<not> isspace (last p)"
  using strip_head [of p] strip_last [of p] by simp

lemma newline_space: "isspace CHR 0x0A"
  by (simp add: isspace_def)

lemma fenced_text_stripped: "strip (fence @ x @ fence) = fence @ x @ fence"
  by (rule strip_fixed) (simp_all add: fence_def isspace_def)

lemma fenced_text_starts: "startswith (fence @ x @ fence) fence"
  by (simp add: startswith_def)

text \<open>
  Every block with the tag line keeps the tag: whatever the payload, as long as it is
  stripped, not empty and free of backquotes.
\<close>

lemma tagged_block_keeps_tag:
  assumes "p \<noteq> []" and "strip p = p" and "CHR 0x60 \<notin> set p"
  shows "strip_code_fence (fence @ ''json'' @ [CHR 0x0A] @ p @ [CHR 0x0A] @ fence) =
           ''json'' @ [CHR 0x0A] @ p"
proof -
  let ?x = "''json'' @ [CHR 0x0A] @ p @ [CHR 0x0A]"
  let ?y = "''json'' @ [CHR 0x0A] @ p"
  from assms(1,2) have e: "\<not> isspace (last p)" using strip_stripped by blast
  have "CHR 0x60 \<notin> set ?x" using assms(3) by simp
  then have sp: "split_str fence (fence @ ?x @ fence) = [[], ?x, []]" by (rule split_fenced)
  have "rstrip ?x = rstrip ?y"
    using rstrip_snoc_space [OF newline_space, of ?y] by simp
  moreover have "rstrip ?y = ?y" using e assms(1) by (intro rstrip_fixed) simp
  moreover have "lstrip ?x = ?x" by (intro lstrip_fixed) (simp add: isspace_def)
  ultimately have sx: "strip ?x = ?y" by (simp add: strip_def)
  have s0: "strip [] = []" by (simp add: strip_def lstrip_def rstrip_def)
  have "length (lower ?y) \<noteq> length ''json''" by (simp add: lower_def)
  then have nj: "lower ?y \<noteq> ''json''" by metis
  have "first_chunk [[], ?x, []] = Some ?y"
    using sx s0 nj by (simp add: Let_def)
  then show ?thesis
    using sp fenced_text_stripped [of ?x] fenced_text_starts [of ?x]
    by (simp add: strip_code_fence_def)
qed

text \<open>
  Without the tag line the block gives the payload back, unless the payload is itself
  the word json.
\<close>

lemma untagged_block_stripped:
  assumes "p \<noteq> []" and "strip p = p" and "CHR 0x60 \<notin> set p" and "lower p \<noteq> ''json''"
  shows "strip_code_fence (fence @ [CHR 0x0A] @ p @ [CHR 0x0A] @ fence) = p"
proof -
  let ?x = "[CHR 0x0A] @ p @ [CHR 0x0A]"
  have "CHR 0x60 \<notin> set ?x" using assms(3) by simp
  then have sp: "split_str fence (fence @ ?x @ fence) = [[], ?x, []]" by (rule split_fenced)
  have "lstrip ?x = lstrip (p @ [CHR 0x0A])" using newline_space by (simp add: lstrip_def)
  also have "\<dots> = p @ [CHR 0x0A]"
    using assms(1,2) strip_stripped by (intro lstrip_fixed) auto
  finally have "strip ?x = rstrip (p @ [CHR 0x0A])" by (simp add: strip_def)
  also have "\<dots> = rstrip p" using newline_space by (rule rstrip_snoc_space)
  also have "\<dots> = p" using assms(1,2) strip_stripped by (intro rstrip_fixed) auto
  finally have sx: "strip ?x = p" .
  have s0: "strip [] = []" by (simp add: strip_def lstrip_def rstrip_def)
  have "first_chunk [[], ?x, []] = Some p"
    using sx s0 assms(1,4) by (simp add: Let_def)
  then show ?thesis
    using sp fenced_text_stripped [of ?x] fenced_text_starts [of ?x]
    by (simp add: strip_code_fence_def)
qed

lemma tagged_block_not_parsed:
  assumes "p \<noteq> []" and "strip p = p" and "CHR 0x60 \<notin> set p"
    and "loads (''json'' @ [CHR 0x0A] @ p) = None"
  shows "parse_template_payload loads
           (strip_code_fence (fence @ ''json'' @ [CHR 0x0A] @ p @ [CHR 0x0A] @ fence)) =
         Inl (ValueError ''Gemini response was not valid JSON.'')"
  unfolding tagged_block_keeps_tag [OF assms(1-3)] parse_template_payload_def
  using assms(4) by simp

lemma untagged_block_parsed:
  assumes "p \<noteq> []" and "strip p = p" and "CHR 0x60 \<notin> set p" and "lower p \<noteq> ''json''"
  shows "parse_template_payload loads
           (strip_code_fence (fence @ [CHR 0x0A] @ p @ [CHR 0x0A] @ fence)) =
         parse_template_payload loads p"
  by (simp only: untagged_block_stripped [OF assms])

text \<open>
  C7. A payload in a fenced block whose opening fence carries a language tag line should
  come back without the fences and without the tag. The loop skips a chunk only when the
  whole stripped chunk is the word json, and the tag shares its chunk with the payload, so
  the tag stays: for the block below the result still opens with the tag. The same
  payload fenced without a tag, or with the tag between fences of its own, comes back
  bare.
\<close>

theorem language_tag_kept:
  "strip_code_fence ''```json\<newline>{}\<newline>```'' = ''json\<newline>{}'' \<and>
   strip_code_fence ''```\<newline>{}\<newline>```'' = ''{}'' \<and>
   strip_code_fence ''```json```{}```'' = ''{}''"
  by code_simp

section \<open>Validation\<close>

subsection \<open>A payload of the expected shape\<close>

lemma make_blanks_ok:
  "map (\<lambda>i. getitem i ''key'') items = map Inr ks \<Longrightarrow>
   map (\<lambda>i. getitem i ''prompt'') items = map Inr ps \<Longrightarrow>
   make_blanks items = Inr (blanks_of ks ps)"
proof (induction items arbitrary: ks ps)
  case Nil
  then show ?case by (simp add: blanks_of_def)
next
  case (Cons i items)
  from Cons.prems(1) obtain k ks' where ks: "ks = k # ks'" by (cases ks) auto
  from Cons.prems(2) obtain p ps' where ps: "ps = p # ps'" by (cases ps) auto
  from Cons.prems ks ps have h: "getitem i ''key'' = Inr k" "getitem i ''prompt'' = Inr p"
    "map (\<lambda>i. getitem i ''key'') items = map Inr ks'"
    "map (\<lambda>i. getitem i ''prompt'') items = map Inr ps'" by auto
  from Cons.IH [OF h(3) h(4)] h(1) h(2) show ?case
    by (simp add: ks ps make_blank_def blanks_of_def)
qed

lemma blanks_of_length:
  "length ks = n \<Longrightarrow> length ps = n \<Longrightarrow> length (blanks_of ks ps) = n"
  by (simp add: blanks_of_def)

lemma construct_template_ok:
  assumes "getitem v ''title'' = Inr t"
    and "getitem v ''skeleton'' = Inr sk"
    and "getitem v ''blanks'' = Inr (JArr items)"
    and "map (\<lambda>i. getitem i ''key'') items = map Inr ks"
    and "map (\<lambda>i. getitem i ''prompt'') items = map Inr ps"
  shows "construct_template v = Inr \<lparr>title = t, blanks = blanks_of ks ps, skeleton = sk\<rparr>"
  using assms(1-3) make_blanks_ok [OF assms(4) assms(5)]
  by (simp add: construct_template_def)

lemma parse_template_value_ok:
  assumes "getitem v ''title'' = Inr t"
    and "getitem v ''skeleton'' = Inr sk"
    and "getitem v ''blanks'' = Inr (JArr items)"
    and "map (\<lambda>i. getitem i ''key'') items = map Inr ks"
    and "map (\<lambda>i. getitem i ''prompt'') items = map Inr ps"
    and "8 \<le> length items" and "length items \<le> 10"
  shows "parse_template_value v = Inr \<lparr>title = t, blanks = blanks_of ks ps, skeleton = sk\<rparr>"
proof -
  have "length ks = length items" using assms(4) by (metis length_map)
  moreover have "length ps = length items" using assms(5) by (metis length_map)
  ultimately have "length (blanks_of ks ps) = length items" by (rule blanks_of_length)
  with assms(6,7) construct_template_ok [OF assms(1-5)] show ?thesis
    by (simp add: parse_template_value_def)
qed

lemma parse_template_value_count:
  assumes "getitem v ''title'' = Inr t"
    and "getitem v ''skeleton'' = Inr sk"
    and "getitem v ''blanks'' = Inr (JArr items)"
    and "map (\<lambda>i. getitem i ''key'') items = map Inr ks"
    and "map (\<lambda>i. getitem i ''prompt'') items = map Inr ps"
    and "length items < 8 \<or> 10 < length items"
  shows "parse_template_value v = Inl (ValueError ''Template must contain between 8 and 10 blanks.'')"
proof -
  have "length ks = length items" using assms(4) by (metis length_map)
  moreover have "length ps = length items" using assms(5) by (metis length_map)
  ultimately have "length (blanks_of ks ps) = length items" by (rule blanks_of_length)
  with assms(6) construct_template_ok [OF assms(1-5)] show ?thesis
    by (auto simp add: parse_template_value_def)
qed

lemma blanks_of_keys: "length ks = length ps \<Longrightarrow> map key (blanks_of ks ps) = ks"
  by (induction ks ps rule: list_induct2) (simp_all add: blanks_of_def)

lemma blanks_of_prompts: "length ks = length ps \<Longrightarrow> map prompt (blanks_of ks ps) = ps"
  by (induction ks ps rule: list_induct2) (simp_all add: blanks_of_def)

lemma sample_items:
  "map (\<lambda>i. getitem i ''key'') (map blank_item ks) = map Inr (map JStr ks)"
  "map (\<lambda>i. getitem i ''prompt'') (map blank_item ks) =
     map Inr (map JStr (map (\<lambda>k. ''Give me: '' @ k) ks))"
  by (simp_all add: blank_item_def)

lemma sample_payload:
  "getitem (payload t ks sk) ''title'' = Inr t"
  "getitem (payload t ks sk) ''skeleton'' = Inr (JStr sk)"
  "getitem (payload t ks sk) ''blanks'' = Inr (JArr (map blank_item ks))"
  by (simp_all add: payload_def)

lemma sample_template:
  "\<lparr>title = t, blanks = blanks_of (map JStr ks) (map JStr (map (\<lambda>k. ''Give me: '' @ k) ks)),
    skeleton = JStr sk\<rparr> = template_of t ks sk"
  by (simp add: template_of_def o_def)
lemma malformed_keys_length:
  "8 \<le> length (map blank_item malformed_keys)" "length (map blank_item malformed_keys) \<le> 10"
  by (simp_all add: malformed_keys_def)

text \<open>
  C4, as the program behaves. A payload of the expected shape whose blanks array has fewer
  than 8 or more than 10 elements is rejected with the error of the count check, whose
  text is the same for every count and does not quote it; seven blanks are too few.
\<close>

theorem blank_count_rejected:
  assumes "getitem v ''title'' = Inr t"
    and "getitem v ''skeleton'' = Inr sk"
    and "getitem v ''blanks'' = Inr (JArr items)"
    and "map (\<lambda>i. getitem i ''key'') items = map Inr ks"
    and "map (\<lambda>i. getitem i ''prompt'') items = map Inr ps"
    and "length items < 8 \<or> 10 < length items"
  shows "parse_template_value v =
           Inl (ValueError ''Template must contain between 8 and 10 blanks.'')"
  using assms by (rule parse_template_value_count)

text \<open>The scenario with seven blanks.\<close>

theorem blank_count_rejected_witness:
  "parse_template_value (payload (JStr ''T'') (take 7 sample_keys) sample_skeleton) =
     Inl (ValueError ''Template must contain between 8 and 10 blanks.'')"
proof -
  have n: "length (map blank_item (take 7 sample_keys)) < 8 \<or>
           10 < length (map blank_item (take 7 sample_keys))"
    by (simp add: sample_keys_def)
  from blank_count_rejected
    [OF sample_payload [of "JStr ''T''" "take 7 sample_keys" sample_skeleton]
      sample_items [of "take 7 sample_keys"] n]
  show ?thesis .
qed

text \<open>
  Seven blanks and eleven blanks are rejected with one and the same error value, so the
  error does not tell the count.
\<close>

theorem blank_count_not_quoted:
  "parse_template_value (payload (JStr ''T'') (take 7 sample_keys) sample_skeleton) =
     parse_template_value (payload (JStr ''T'') eleven_keys sample_skeleton) \<and>
   parse_template_value (payload (JStr ''T'') eleven_keys sample_skeleton) =
     Inl (ValueError ''Template must contain between 8 and 10 blanks.'')"
proof -
  have seven: "length (map blank_item (take 7 sample_keys)) < 8 \<or>
               10 < length (map blank_item (take 7 sample_keys))"
    by (simp add: sample_keys_def)
  have eleven: "length (map blank_item eleven_keys) < 8 \<or>
                10 < length (map blank_item eleven_keys)"
    by (simp add: eleven_keys_def sample_keys_def)
  from parse_template_value_count
    [OF sample_payload [of "JStr ''T''" "take 7 sample_keys" sample_skeleton]
      sample_items [of "take 7 sample_keys"] seven]
    parse_template_value_count
    [OF sample_payload [of "JStr ''T''" eleven_keys sample_skeleton]
      sample_items [of eleven_keys] eleven]
  show ?thesis by simp
qed

text \<open>
  C2, as the program behaves. A payload of the expected shape with 8 to 10 blanks in
  which a key occurs twice is accepted: no key is compared with another, and the template
  holds the blanks as given, the repeated key included.
\<close>

theorem validate_accepts_duplicate_keys:
  assumes "getitem v ''title'' = Inr (JStr t)"
    and "getitem v ''skeleton'' = Inr (JStr sk)"
    and "getitem v ''blanks'' = Inr (JArr items)"
    and "map (\<lambda>i. getitem i ''key'') items = map Inr (map JStr keys)"
    and "map (\<lambda>i. getitem i ''prompt'') items = map Inr (map JStr prompts)"
    and "8 \<le> length items" and "length items \<le> 10"
    and "\<not> distinct keys"
  shows "parse_template_value v =
           Inr \<lparr>title = JStr t, blanks = blanks_of (map JStr keys) (map JStr prompts),
                skeleton = JStr sk\<rparr>"
  using assms(1-7) by (rule parse_template_value_ok)

text \<open>The sample payload with the key animal given twice.\<close>

theorem validate_accepts_duplicate_keys_witness:
  "parse_template_value (payload (JStr ''T'') repeated_keys sample_skeleton) =
     Inr (template_of (JStr ''T'') repeated_keys sample_skeleton)"
proof -
  have n: "8 \<le> length (map blank_item repeated_keys)" "length (map blank_item repeated_keys) \<le> 10"
    by (simp_all add: repeated_keys_def)
  have d: "\<not> distinct repeated_keys" by (simp add: repeated_keys_def)
  from validate_accepts_duplicate_keys
    [OF sample_payload [of "JStr ''T''" repeated_keys sample_skeleton] sample_items [of repeated_keys] n d]
  show ?thesis by (simp only: sample_template)
qed

text \<open>
  A template is produced for that payload, and its keys are not pairwise distinct.
\<close>

theorem duplicate_key_accepted:
  "parse_template_value (payload (JStr ''T'') repeated_keys sample_skeleton) =
     Inr (template_of (JStr ''T'') repeated_keys sample_skeleton) \<and>
   map key (blanks (template_of (JStr ''T'') repeated_keys sample_skeleton)) =
     map JStr repeated_keys \<and>
   \<not> distinct repeated_keys"
proof -
  have "parse_template_value (payload (JStr ''T'') repeated_keys sample_skeleton) =
     Inr (template_of (JStr ''T'') repeated_keys sample_skeleton)"
  proof -
    have n: "8 \<le> length (map blank_item repeated_keys)"
      "length (map blank_item repeated_keys) \<le> 10"
      by (simp_all add: repeated_keys_def)
    from parse_template_value_ok
      [OF sample_payload [of "JStr ''T''" repeated_keys sample_skeleton]
        sample_items [of repeated_keys] n]
    show ?thesis by (simp only: sample_template)
  qed
  moreover have "map key (blanks (template_of (JStr ''T'') repeated_keys sample_skeleton)) =
     map JStr repeated_keys"
    by (simp add: template_of_def blanks_of_keys)
  moreover have "\<not> distinct repeated_keys" by (simp add: repeated_keys_def)
  ultimately show ?thesis by simp
qed

text \<open>
  C3, as the program behaves. A payload of the expected shape with 8 to 10 blanks in
  which some key is not an identifier is accepted: no key is tested, and the template
  holds every key as given.
\<close>

theorem validate_accepts_any_key:
  assumes "getitem v ''title'' = Inr (JStr t)"
    and "getitem v ''skeleton'' = Inr (JStr sk)"
    and "getitem v ''blanks'' = Inr (JArr items)"
    and "map (\<lambda>i. getitem i ''key'') items = map Inr (map JStr keys)"
    and "map (\<lambda>i. getitem i ''prompt'') items = map Inr (map JStr prompts)"
    and "8 \<le> length items" and "length items \<le> 10"
    and "\<not> list_all is_identifier keys"
  shows "parse_template_value v =
           Inr \<lparr>title = JStr t, blanks = blanks_of (map JStr keys) (map JStr prompts),
                skeleton = JStr sk\<rparr>"
  using assms(1-7) by (rule parse_template_value_ok)

text \<open>The sample payload with an all-digit key, a key with a space and an empty key.\<close>

theorem validate_accepts_any_key_witness:
  "parse_template_value (payload (JStr ''T'') malformed_keys sample_skeleton) =
     Inr (template_of (JStr ''T'') malformed_keys sample_skeleton)"
proof -
  have bad: "\<not> list_all is_identifier malformed_keys" by code_simp
  from validate_accepts_any_key
    [OF sample_payload [of "JStr ''T''" malformed_keys sample_skeleton]
      sample_items [of malformed_keys] malformed_keys_length bad]
  show ?thesis by (simp only: sample_template)
qed

text \<open>A template is produced for that payload although three of its keys are malformed.\<close>

theorem bad_key_accepted:
  "parse_template_value (payload (JStr ''T'') malformed_keys sample_skeleton) =
     Inr (template_of (JStr ''T'') malformed_keys sample_skeleton) \<and>
   map key (blanks (template_of (JStr ''T'') malformed_keys sample_skeleton)) =
     map JStr malformed_keys \<and>
   \<not> is_identifier ''9'' \<and> \<not> is_identifier ''two words'' \<and> \<not> is_identifier []"
proof -
  have "parse_template_value (payload (JStr ''T'') malformed_keys sample_skeleton) =
     Inr (template_of (JStr ''T'') malformed_keys sample_skeleton)"
    using parse_template_value_ok
      [OF sample_payload [of "JStr ''T''" malformed_keys sample_skeleton]
        sample_items [of malformed_keys] malformed_keys_length]
    by (simp only: sample_template)
  moreover have "map key (blanks (template_of (JStr ''T'') malformed_keys sample_skeleton)) =
     map JStr malformed_keys"
    by (simp add: template_of_def blanks_of_keys)
  moreover have "\<not> is_identifier ''9''" by code_simp
  moreover have "\<not> is_identifier ''two words''" by code_simp
  moreover have "\<not> is_identifier []" by (simp add: is_identifier_def)
  ultimately show ?thesis by blast
qed

subsection \<open>Missing fields\<close>

lemma getitem_error: "getitem v name = Inl e \<Longrightarrow> e = KeyError name \<or> e = TypeError"
  by (cases v) (auto split: option.splits)

lemma iterate_error: "iterate v = Inl e \<Longrightarrow> e = TypeError"
  by (cases v) auto

lemma make_blank_error: "make_blank i = Inl e \<Longrightarrow> (\<exists>name. e = KeyError name) \<or> e = TypeError"
  unfolding make_blank_def by (auto split: sum.splits dest: getitem_error)

lemma make_blanks_error:
  "make_blanks items = Inl e \<Longrightarrow> (\<exists>name. e = KeyError name) \<or> e = TypeError"
proof (induction items)
  case Nil
  then show ?case by simp
next
  case (Cons i items)
  then show ?case by (auto split: sum.splits dest: make_blank_error)
qed

lemma construct_template_error:
  "construct_template v = Inl e \<Longrightarrow> (\<exists>name. e = KeyError name) \<or> e = TypeError"
  unfolding construct_template_def
  by (auto split: sum.splits dest: getitem_error iterate_error make_blanks_error)

lemma parse_template_value_missed:
  assumes "construct_template v = Inl e"
  shows "parse_template_value v = Inl (ValueError ''Gemini response JSON missed required fields.'')"
proof -
  from assms have "(\<exists>name. e = KeyError name) \<or> e = TypeError"
    by (rule construct_template_error)
  then have "missed_fields e = ValueError ''Gemini response JSON missed required fields.''"
    by auto
  with assms show ?thesis by (simp add: parse_template_value_def)
qed

lemma construct_template_needs_fields:
  assumes "getitem v ''title'' = Inl e1 \<or> getitem v ''blanks'' = Inl e2 \<or>
           getitem v ''skeleton'' = Inl e3"
  shows "\<exists>e. construct_template v = Inl e"
  using assms unfolding construct_template_def by (auto split: sum.splits)

lemma make_blanks_of_string: "make_blanks (JStr s # items) = Inl TypeError"
  by (simp add: make_blank_def)

lemma iterate_not_array:
  assumes "iterate b = Inr its" and "\<And>items. b \<noteq> JArr items"
  shows "its = [] \<or> (\<exists>s rest. its = JStr s # rest)"
  using assms by (cases b; cases its) auto

lemma iterate_empty:
  assumes "iterate b = Inr []"
  shows "b = JStr [] \<or> b = JObj [] \<or> b = JArr []"
  using assms by (cases b) auto

lemma construct_template_not_iterable:
  assumes "getitem v ''blanks'' = Inr b"
    and "b \<noteq> JStr []" and "b \<noteq> JObj []" and "\<And>items. b \<noteq> JArr items"
  shows "\<exists>e. construct_template v = Inl e"
proof (cases "iterate b")
  case (Inl e)
  with assms(1) show ?thesis by (simp add: construct_template_def)
next
  case (Inr its)
  from iterate_not_array [OF Inr assms(4)] show ?thesis
  proof
    assume "its = []"
    with Inr have "b = JStr [] \<or> b = JObj [] \<or> b = JArr []" using iterate_empty by blast
    with assms(2-4) show ?thesis by blast
  next
    assume "\<exists>s rest. its = JStr s # rest"
    then obtain s rest where "its = JStr s # rest" by blast
    with Inr assms(1) show ?thesis
      by (simp add: construct_template_def make_blank_def)
  qed
qed

lemma parse_template_value_empty:
  assumes "getitem v ''title'' = Inr t" and "getitem v ''skeleton'' = Inr sk"
    and "getitem v ''blanks'' = Inr b" and "b = JStr [] \<or> b = JObj []"
  shows "parse_template_value v =
           Inl (ValueError ''Template must contain between 8 and 10 blanks.'')"
  using assms by (auto simp add: parse_template_value_def construct_template_def)

text \<open>
  C5, as the program behaves. A value that is not an object, or lacks one of title,
  blanks and skeleton, is rejected with the one error the program has for all three
  fields, which does not name the field. When blanks is present and is not an array the
  value is rejected as well: with the error of the count check when it is the empty
  string or the empty object (and title and skeleton are present), with the error for
  missing fields otherwise. What title and skeleton hold is never looked at: with 8 to 10
  well-shaped blanks the template is built around any two values.
\<close>

theorem missing_field_rejected:
  "(getitem v ''title'' = Inl e1 \<or> getitem v ''blanks'' = Inl e2 \<or>
    getitem v ''skeleton'' = Inl e3 \<longrightarrow>
      parse_template_value v =
        Inl (ValueError ''Gemini response JSON missed required fields.'')) \<and>
   (getitem v ''blanks'' = Inr b \<and> b \<noteq> JStr [] \<and> b \<noteq> JObj [] \<and> (\<forall>items. b \<noteq> JArr items) \<longrightarrow>
      parse_template_value v =
        Inl (ValueError ''Gemini response JSON missed required fields.'')) \<and>
   (getitem v ''title'' = Inr t \<and> getitem v ''skeleton'' = Inr sk \<and>
    getitem v ''blanks'' = Inr b \<and> (b = JStr [] \<or> b = JObj []) \<longrightarrow>
      parse_template_value v =
        Inl (ValueError ''Template must contain between 8 and 10 blanks.'')) \<and>
   (getitem v ''title'' = Inr t \<and> getitem v ''skeleton'' = Inr sk \<and>
    getitem v ''blanks'' = Inr (JArr items) \<and>
    map (\<lambda>i. getitem i ''key'') items = map Inr ks \<and>
    map (\<lambda>i. getitem i ''prompt'') items = map Inr ps \<and>
    8 \<le> length items \<and> length items \<le> 10 \<longrightarrow>
      parse_template_value v = Inr \<lparr>title = t, blanks = blanks_of ks ps, skeleton = sk\<rparr>)"
proof (intro conjI impI)
  assume "getitem v ''title'' = Inl e1 \<or> getitem v ''blanks'' = Inl e2 \<or>
    getitem v ''skeleton'' = Inl e3"
  then obtain e where "construct_template v = Inl e"
    using construct_template_needs_fields by blast
  then show "parse_template_value v =
        Inl (ValueError ''Gemini response JSON missed required fields.'')"
    by (rule parse_template_value_missed)
next
  assume "getitem v ''blanks'' = Inr b \<and> b \<noteq> JStr [] \<and> b \<noteq> JObj [] \<and>
    (\<forall>items. b \<noteq> JArr items)"
  then obtain e where "construct_template v = Inl e"
    using construct_template_not_iterable [of v b] by blast
  then show "parse_template_value v =
        Inl (ValueError ''Gemini response JSON missed required fields.'')"
    by (rule parse_template_value_missed)
next
  assume "getitem v ''title'' = Inr t \<and> getitem v ''skeleton'' = Inr sk \<and>
    getitem v ''blanks'' = Inr b \<and> (b = JStr [] \<or> b = JObj [])"
  then show "parse_template_value v =
        Inl (ValueError ''Template must contain between 8 and 10 blanks.'')"
    using parse_template_value_empty by blast
next
  assume "getitem v ''title'' = Inr t \<and> getitem v ''skeleton'' = Inr sk \<and>
    getitem v ''blanks'' = Inr (JArr items) \<and>
    map (\<lambda>i. getitem i ''key'') items = map Inr ks \<and>
    map (\<lambda>i. getitem i ''prompt'') items = map Inr ps \<and>
    8 \<le> length items \<and> length items \<le> 10"
  then show "parse_template_value v =
      Inr \<lparr>title = t, blanks = blanks_of ks ps, skeleton = sk\<rparr>"
    using parse_template_value_ok by blast
qed

text \<open>
  An object without a title; blanks that is a number, and blanks that is an object with
  a member; blanks that is the empty string, and blanks that is the empty object; a
  payload whose title is a number and whose skeleton is null.
\<close>

theorem missing_field_rejected_witness:
  "parse_template_value (JObj [(''blanks'', JArr []), (''skeleton'', JStr sample_skeleton)]) =
     Inl (ValueError ''Gemini response JSON missed required fields.'') \<and>
   parse_template_value (JObj [(''title'', JStr ''T''), (''blanks'', JInt 8),
                               (''skeleton'', JStr sample_skeleton)]) =
     Inl (ValueError ''Gemini response JSON missed required fields.'') \<and>
   parse_template_value (JObj [(''title'', JStr ''T''), (''blanks'', JObj [(''key'', JStr ''animal'')]),
                               (''skeleton'', JStr sample_skeleton)]) =
     Inl (ValueError ''Gemini response JSON missed required fields.'') \<and>
   parse_template_value (JObj [(''title'', JStr ''T''), (''blanks'', JStr []),
                               (''skeleton'', JStr sample_skeleton)]) =
     Inl (ValueError ''Template must contain between 8 and 10 blanks.'') \<and>
   parse_template_value (JObj [(''title'', JStr ''T''), (''blanks'', JObj []),
                               (''skeleton'', JStr sample_skeleton)]) =
     Inl (ValueError ''Template must contain between 8 and 10 blanks.'') \<and>
   parse_template_value (JObj [(''title'', JInt 5), (''blanks'', JArr (map blank_item sample_keys)),
                               (''skeleton'', JNull)]) =
     Inr \<lparr>title = JInt 5,
          blanks = blanks_of (map JStr sample_keys)
                     (map JStr (map (\<lambda>k. ''Give me: '' @ k) sample_keys)),
          skeleton = JNull\<rparr>"
proof -
  let ?a = "JObj [(''blanks'', JArr []), (''skeleton'', JStr sample_skeleton)]"
  let ?b = "JObj [(''title'', JStr ''T''), (''blanks'', JInt 8),
                  (''skeleton'', JStr sample_skeleton)]"
  let ?c = "JObj [(''title'', JStr ''T''), (''blanks'', JObj [(''key'', JStr ''animal'')]),
                  (''skeleton'', JStr sample_skeleton)]"
  let ?d = "JObj [(''title'', JStr ''T''), (''blanks'', JStr []),
                  (''skeleton'', JStr sample_skeleton)]"
  let ?e = "JObj [(''title'', JStr ''T''), (''blanks'', JObj []),
                  (''skeleton'', JStr sample_skeleton)]"
  let ?f = "JObj [(''title'', JInt 5), (''blanks'', JArr (map blank_item sample_keys)),
                  (''skeleton'', JNull)]"
  have a: "getitem ?a ''title'' = Inl (KeyError ''title'') \<or>
           getitem ?a ''blanks'' = Inl TypeError \<or> getitem ?a ''skeleton'' = Inl TypeError"
    by simp
  have b: "getitem ?b ''blanks'' = Inr (JInt 8) \<and> JInt 8 \<noteq> JStr [] \<and> JInt 8 \<noteq> JObj [] \<and>
           (\<forall>items. JInt 8 \<noteq> JArr items)"
    by simp
  have c: "getitem ?c ''blanks'' = Inr (JObj [(''key'', JStr ''animal'')]) \<and>
           JObj [(''key'', JStr ''animal'')] \<noteq> JStr [] \<and>
           JObj [(''key'', JStr ''animal'')] \<noteq> JObj [] \<and>
           (\<forall>items. JObj [(''key'', JStr ''animal'')] \<noteq> JArr items)"
    by simp
  have d: "getitem ?d ''title'' = Inr (JStr ''T'') \<and>
           getitem ?d ''skeleton'' = Inr (JStr sample_skeleton) \<and>
           getitem ?d ''blanks'' = Inr (JStr []) \<and> (JStr [] = JStr [] \<or> JStr [] = JObj [])"
    by simp
  have e: "getitem ?e ''title'' = Inr (JStr ''T'') \<and>
           getitem ?e ''skeleton'' = Inr (JStr sample_skeleton) \<and>
           getitem ?e ''blanks'' = Inr (JObj []) \<and> (JObj [] = JStr [] \<or> JObj [] = JObj [])"
    by simp
  have f: "getitem ?f ''title'' = Inr (JInt 5) \<and> getitem ?f ''skeleton'' = Inr JNull \<and>
           getitem ?f ''blanks'' = Inr (JArr (map blank_item sample_keys)) \<and>
           map (\<lambda>i. getitem i ''key'') (map blank_item sample_keys) =
             map Inr (map JStr sample_keys) \<and>
           map (\<lambda>i. getitem i ''prompt'') (map blank_item sample_keys) =
             map Inr (map JStr (map (\<lambda>k. ''Give me: '' @ k) sample_keys)) \<and>
           8 \<le> length (map blank_item sample_keys) \<and> length (map blank_item sample_keys) \<le> 10"
    using sample_items [of sample_keys] by (simp add: sample_keys_def)
  note th = missing_field_rejected
  from th [of ?a "KeyError ''title''" TypeError TypeError] a
  have 1: "parse_template_value ?a =
     Inl (ValueError ''Gemini response JSON missed required fields.'')" by blast
  from th [of ?b _ _ _ "JInt 8"] b
  have 2: "parse_template_value ?b =
     Inl (ValueError ''Gemini response JSON missed required fields.'')" by blast
  from th [of ?c _ _ _ "JObj [(''key'', JStr ''animal'')]"] c
  have 3: "parse_template_value ?c =
     Inl (ValueError ''Gemini response JSON missed required fields.'')" by blast
  from th [of ?d _ _ _ "JStr []" "JStr ''T''" "JStr sample_skeleton"] d
  have 4: "parse_template_value ?d =
     Inl (ValueError ''Template must contain between 8 and 10 blanks.'')" by blast
  from th [of ?e _ _ _ "JObj []" "JStr ''T''" "JStr sample_skeleton"] e
  have 5: "parse_template_value ?e =
     Inl (ValueError ''Template must contain between 8 and 10 blanks.'')" by blast
  from th [of ?f _ _ _ _ "JInt 5" JNull "map blank_item sample_keys" "map JStr sample_keys"
      "map JStr (map (\<lambda>k. ''Give me: '' @ k) sample_keys)"] f
  have 6: "parse_template_value ?f =
     Inr \<lparr>title = JInt 5,
          blanks = blanks_of (map JStr sample_keys)
                     (map JStr (map (\<lambda>k. ''Give me: '' @ k) sample_keys)),
          skeleton = JNull\<rparr>" by blast
  from 1 2 3 4 5 6 show ?thesis by blast
qed

text \<open>
  A payload whose title is the number 5 is accepted, and the template carries that number
  as its title.
\<close>

theorem non_string_title_accepted:
  "parse_template_value (payload (JInt 5) sample_keys sample_skeleton) =
     Inr (template_of (JInt 5) sample_keys sample_skeleton) \<and>
   title (template_of (JInt 5) sample_keys sample_skeleton) = JInt 5"
proof -
  have n: "8 \<le> length (map blank_item sample_keys)" "length (map blank_item sample_keys) \<le> 10"
    by (simp_all add: sample_keys_def)
  from parse_template_value_ok
    [OF sample_payload [of "JInt 5" sample_keys sample_skeleton] sample_items [of sample_keys] n]
  have "parse_template_value (payload (JInt 5) sample_keys sample_skeleton) =
     Inr (template_of (JInt 5) sample_keys sample_skeleton)"
    by (simp only: sample_template)
  then show ?thesis by (simp add: template_of_def)
qed

section \<open>Rendering\<close>

subsection \<open>Reading a skeleton\<close>

lemma markup_escape: "markup None (escape s @ rest) = map Lit s @ markup None rest"
  by (induction s) simp_all

lemma markup_name:
  "plain_name k \<Longrightarrow>
   markup (Some acc) (k @ CHR ''}'' # rest) = Field (rev acc @ k) # markup None rest"
  by (induction k arbitrary: acc) (simp_all add: plain_name_def)

lemma markup_placeholder:
  assumes "plain_name k"
  shows "markup None (''{'' @ k @ ''}'' @ rest) = Field k # markup None rest"
proof -
  have "markup None (CHR ''{'' # k @ CHR ''}'' # rest) = markup (Some []) (k @ CHR ''}'' # rest)"
    using assms by (cases k) (simp_all add: plain_name_def)
  with markup_name [OF assms, of "[]" rest] show ?thesis by simp
qed

lemma markup_skeleton_text:
  "list_all plain_name (placeholders segments) \<Longrightarrow>
   markup None (skeleton_text segments) = items_of segments"
proof (induction segments)
  case Nil
  show ?case by simp
next
  case (Cons a segments)
  show ?case
  proof (cases a)
    case (Text s)
    with Cons show ?thesis by (simp add: markup_escape)
  next
    case (Placeholder k)
    with Cons.prems have k: "plain_name k" and "list_all plain_name (placeholders segments)"
      by simp_all
    then have "markup None (skeleton_text segments) = items_of segments" by (intro Cons.IH)
    with markup_placeholder [OF k, of "skeleton_text segments"] Placeholder
    show ?thesis by simp
  qed
qed

lemma plain_name_whole:
  assumes "plain_name k"
  shows "takeWhile (\<lambda>c. \<not> is_separator c) k = k" and "dropWhile (\<lambda>c. \<not> is_separator c) k = []"
proof -
  have "\<forall>c \<in> set k. \<not> is_separator c"
    using assms by (auto simp: plain_name_def list_all_iff is_separator_def)
  then show "takeWhile (\<lambda>c. \<not> is_separator c) k = k"
    and "dropWhile (\<lambda>c. \<not> is_separator c) k = []" by simp_all
qed

lemma get_field_plain:
  assumes "plain_name k"
  shows "get_field address k kw =
     (case get_integer k of
        TooManyDigits \<Rightarrow> Inl (ValueError ''Too many decimal digits in format string'')
      | Index i \<Rightarrow> Inl IndexError
      | NotInteger \<Rightarrow>
          if k = [] then Inl IndexError
          else (case kw k of None \<Rightarrow> Inl (KeyError k) | Some v \<Rightarrow> Inr v))"
  unfolding get_field_def Let_def plain_name_whole [OF assms]
  by (simp split: index.splits option.splits)

lemma keyword_name_plain: "keyword_name k \<Longrightarrow> plain_name k"
  by (simp add: keyword_name_def)

lemma get_field_keyword:
  "keyword_name k \<Longrightarrow>
   get_field address k kw = (case kw k of None \<Rightarrow> Inl (KeyError k) | Some v \<Rightarrow> Inr v)"
  by (simp add: get_field_plain keyword_name_def)

lemma substitute_lits:
  "substitute address kw (map Lit s @ items) =
     (case substitute address kw items of Inl e \<Rightarrow> Inl e | Inr out \<Rightarrow> Inr (s @ out))"
  by (induction s) (simp_all split: sum.splits)

lemma substitute_filled:
  "list_all keyword_name (placeholders segments) \<Longrightarrow>
   list_all (\<lambda>n. kw n \<noteq> None) (placeholders segments) \<Longrightarrow>
   substitute address kw (items_of segments) = Inr (filled kw segments)"
proof (induction segments)
  case Nil
  show ?case by simp
next
  case (Cons a segments)
  then show ?case by (cases a) (auto simp: substitute_lits get_field_keyword)
qed

lemma substitute_first_missing:
  "list_all keyword_name (placeholders segments) \<Longrightarrow>
   find (\<lambda>n. kw n = None) (placeholders segments) = Some k \<Longrightarrow>
   substitute address kw (items_of segments) = Inl (KeyError k)"
proof (induction segments)
  case Nil
  then show ?case by simp
next
  case (Cons a segments)
  then show ?case
    by (cases a) (auto simp: substitute_lits get_field_keyword split: if_splits)
qed

lemma substitute_fails:
  "k \<in> set (placeholders segments) \<Longrightarrow> get_field address k kw = Inl e \<Longrightarrow>
   \<exists>e'. substitute address kw (items_of segments) = Inl e'"
proof (induction segments)
  case Nil
  then show ?case by simp
next
  case (Cons a segments)
  then show ?case by (cases a) (auto simp: substitute_lits split: sum.splits)
qed

lemma get_field_unused:
  assumes "plain_name n" and "n \<noteq> extra"
  shows "get_field address n (kw(extra := None)) = get_field address n kw"
  using assms(2) by (simp add: get_field_plain [OF assms(1)] split: index.splits)

lemma substitute_unused:
  "list_all plain_name (placeholders segments) \<Longrightarrow> extra \<notin> set (placeholders segments) \<Longrightarrow>
   substitute address (kw(extra := None)) (items_of segments) =
   substitute address kw (items_of segments)"
proof (induction segments)
  case Nil
  show ?case by (simp only: items_of.simps substitute.simps)
next
  case (Cons a segments)
  show ?case
  proof (cases a)
    case (Text s)
    from Cons.prems Text have "list_all plain_name (placeholders segments)"
      and "extra \<notin> set (placeholders segments)" by simp_all
    then have "substitute address (kw(extra := None)) (items_of segments) =
               substitute address kw (items_of segments)" by (intro Cons.IH)
    then show ?thesis by (simp only: Text items_of.simps substitute_lits)
  next
    case (Placeholder n)
    from Cons.prems Placeholder have n: "plain_name n" "n \<noteq> extra"
      and "list_all plain_name (placeholders segments)"
      and "extra \<notin> set (placeholders segments)" by auto
    then have "substitute address (kw(extra := None)) (items_of segments) =
               substitute address kw (items_of segments)" by (intro Cons.IH)
    moreover have "get_field address n (kw(extra := None)) = get_field address n kw"
      using n by (rule get_field_unused)
    ultimately show ?thesis by (simp only: Placeholder items_of.simps substitute.simps)
  qed
qed

lemma get_field_address:
  "plain_name n \<Longrightarrow> get_field address n kw = get_field address' n kw"
  by (simp add: get_field_plain)

lemma substitute_address:
  "list_all plain_name (placeholders segments) \<Longrightarrow>
   substitute address kw (items_of segments) = substitute address' kw (items_of segments)"
proof (induction segments)
  case Nil
  show ?case by simp
next
  case (Cons a segments)
  show ?case
  proof (cases a)
    case (Text s)
    from Cons.prems Text have "list_all plain_name (placeholders segments)" by simp
    then have "substitute address kw (items_of segments) =
               substitute address' kw (items_of segments)" by (intro Cons.IH)
    then show ?thesis by (simp only: Text items_of.simps substitute_lits)
  next
    case (Placeholder n)
    with Cons.prems have n: "plain_name n" and "list_all plain_name (placeholders segments)"
      by simp_all
    then have "substitute address kw (items_of segments) =
               substitute address' kw (items_of segments)" by (intro Cons.IH)
    moreover have "get_field address n kw = get_field address' n kw"
      using n by (rule get_field_address)
    ultimately show ?thesis by (simp only: Placeholder items_of.simps substitute.simps)
  qed
qed

lemma build_segments:
  assumes "skeleton t = JStr (skeleton_text segments)"
    and "list_all plain_name (placeholders segments)"
  shows "build address t kw = substitute address kw (items_of segments)"
  using assms(1) markup_skeleton_text [OF assms(2)] by (simp add: build_def str_format_def)

lemma has_brace_append: "has_brace (a @ b) \<longleftrightarrow> has_brace a \<or> has_brace b"
  by (auto simp: has_brace_def)

lemma filled_no_brace:
  "\<not> has_brace (plain_text segments) \<Longrightarrow>
   list_all (\<lambda>n. case kw n of None \<Rightarrow> True | Some v \<Rightarrow> \<not> has_brace v) (placeholders segments) \<Longrightarrow>
   \<not> has_brace (filled kw segments)"
proof (induction segments)
  case Nil
  show ?case by (simp add: has_brace_def)
next
  case (Cons a segments)
  then show ?case
    by (cases a) (auto simp: has_brace_append has_brace_def split: option.splits)
qed

lemma is_identifier_plain: "is_identifier k \<Longrightarrow> plain_name k"
  by (auto simp: is_identifier_def plain_name_def list_all_iff isalnum_def)

lemma is_identifier_keyword:
  assumes "is_identifier k" and "\<not> isdecimal (hd k)"
  shows "keyword_name k"
proof -
  from assms(1) obtain c cs where k: "k = c # cs" by (cases k) (auto simp: is_identifier_def)
  with assms(2) have "get_integer k = NotInteger" by (simp add: get_integer_def)
  with assms(1) k show ?thesis by (simp add: keyword_name_def is_identifier_plain)
qed

lemma list_all_same_set: "list_all P keys \<Longrightarrow> set names = set keys \<Longrightarrow> list_all P names"
  by (simp add: list_all_iff)

text \<open>
  An identifier may open with digits. When they run beyond the largest machine integer
  the field raises, entry or no entry; an identifier that opens with no digit is always a
  keyword name.
\<close>

lemma long_digit_key:
  "is_identifier ''9999999999999999999x'' \<and> \<not> keyword_name ''9999999999999999999x'' \<and>
   build here (template_of (JStr ''T'') sample_keys ''{9999999999999999999x}'')
     [''9999999999999999999x'' \<mapsto> ''nine''] =
     Inl (ValueError ''Too many decimal digits in format string'')"
  by code_simp


text \<open>
  The reader and the lookup on format strings outside the form above, as CPython 3.11
  answers them.
\<close>

lemma str_format_samples:
  "str_format here ''A {a} }'' [''a'' \<mapsto> ''x''] =
     Inl (ValueError ''Single '}' encountered in format string'')"
  "str_format here ''A {0} }'' [''a'' \<mapsto> ''x''] = Inl IndexError"
  "str_format here ''A {a'' [''a'' \<mapsto> ''x''] =
     Inl (ValueError ''expected '}' before end of string'')"
  "str_format here ''A {a}}}{'' [''a'' \<mapsto> ''x''] =
     Inl (ValueError ''Single '{' encountered in format string'')"
  "str_format here ''A {{{a}}}'' [''a'' \<mapsto> ''x''] = Inr ''A {x}''"
  "str_format here ''{a{b}}'' [''a'' \<mapsto> ''x''] =
     Inl (ValueError ''unexpected '{' in field name'')"
  "str_format here ''{ a }'' ['' a '' \<mapsto> ''sp''] = Inr ''sp''"
  "str_format here ''{1a}'' [''1a'' \<mapsto> ''one-a''] = Inr ''one-a''"
  "str_format here ''{}'' [''a'' \<mapsto> ''x''] = Inl IndexError"
  "str_format here ''{a}{b}'' [''a'' \<mapsto> ''x''] = Inl (KeyError ''b'')"
  "str_format here ''{ghost} }'' [''a'' \<mapsto> ''x''] = Inl (KeyError ''ghost'')"
  "str_format here ''} {ghost}'' [''a'' \<mapsto> ''x''] =
     Inl (ValueError ''Single '}' encountered in format string'')"
  "str_format here ''{9223372036854775807x}'' [''9223372036854775807x'' \<mapsto> ''v''] = Inr ''v''"
  "str_format here ''{9223372036854775808x}'' [''9223372036854775808x'' \<mapsto> ''v''] =
     Inl (ValueError ''Too many decimal digits in format string'')"
  "str_format here ''{9223372036854775807}'' Map.empty = Inl IndexError"
  "str_format here ''{9223372036854775808}'' Map.empty =
     Inl (ValueError ''Too many decimal digits in format string'')"
  "str_format here ''{a.b}'' Map.empty = Inl (KeyError ''a'')"
  "str_format here ''{0.b}'' Map.empty = Inl IndexError"
  "str_format here ''{.b}'' Map.empty = Inl IndexError"
  "str_format here ''{9x.upper}'' [''9x'' \<mapsto> ''v''] =
     Inr ''<built-in method upper of str object at 0x7f65e10a0800>''"
  by code_simp+

text \<open>
  C6, as the program behaves. Let the skeleton be literal text with placeholders in
  braces whose names are plain. If a placeholder that is a keyword name has no entry
  among the answers, \<open>build\<close> returns no text. When every placeholder is a keyword name,
  what it raises is KeyError, and the key it names is the first placeholder from the left
  that has no entry.
\<close>

theorem render_unresolved_placeholder:
  assumes "skeleton template = JStr (skeleton_text segments)"
    and "list_all plain_name (placeholders segments)"
    and "k \<in> set (placeholders segments)"
    and "keyword_name k"
    and "answers k = None"
  shows "(\<forall>out. build address template answers \<noteq> Inr out) \<and>
         (list_all keyword_name (placeholders segments) \<longrightarrow>
            (\<exists>k'. find (\<lambda>n. answers n = None) (placeholders segments) = Some k' \<and>
                  k' \<in> set (placeholders segments) \<and> answers k' = None \<and>
                  build address template answers = Inl (KeyError k')))"
proof (intro conjI impI)
  from assms(4,5) have "get_field address k answers = Inl (KeyError k)"
    by (simp add: get_field_keyword)
  with assms(3) obtain e where "substitute address answers (items_of segments) = Inl e"
    using substitute_fails by blast
  then show "\<forall>out. build address template answers \<noteq> Inr out"
    by (simp add: build_segments [OF assms(1,2)])
next
  assume kw: "list_all keyword_name (placeholders segments)"
  from assms(3,5) obtain k'
    where f: "find (\<lambda>n. answers n = None) (placeholders segments) = Some k'"
    by (cases "find (\<lambda>n. answers n = None) (placeholders segments)")
       (auto simp: find_None_iff)
  from kw f have "substitute address answers (items_of segments) = Inl (KeyError k')"
    by (rule substitute_first_missing)
  then have "build address template answers = Inl (KeyError k')"
    by (simp add: build_segments [OF assms(1,2)])
  moreover from f have "k' \<in> set (placeholders segments)" and "answers k' = None"
    by (auto simp: find_Some_iff)
  ultimately show "\<exists>k'. find (\<lambda>n. answers n = None) (placeholders segments) = Some k' \<and>
                  k' \<in> set (placeholders segments) \<and> answers k' = None \<and>
                  build address template answers = Inl (KeyError k')"
    using f by blast
qed

text \<open>A skeleton that refers to ghost, which is not among the blanks.\<close>

theorem render_unresolved_placeholder_witness:
  "skeleton_text ghost_segments = ''A {ghost} chased the {animal}.'' \<and>
   build here (template_of (JStr ''T'') sample_keys (skeleton_text ghost_segments)) sample_answers =
     Inl (KeyError ''ghost'')"
proof -
  have sk: "skeleton (template_of (JStr ''T'') sample_keys (skeleton_text ghost_segments)) =
      JStr (skeleton_text ghost_segments)"
    by (simp add: template_of_def)
  have tx: "skeleton_text ghost_segments = ''A {ghost} chased the {animal}.''" by code_simp
  have ps: "placeholders ghost_segments = [''ghost'', ''animal'']" by code_simp
  have plain: "list_all plain_name (placeholders ghost_segments)" by code_simp
  have kw: "list_all keyword_name (placeholders ghost_segments)" by code_simp
  have el: "''ghost'' \<in> set (placeholders ghost_segments)" by (simp add: ps)
  have name: "keyword_name ''ghost''" by code_simp
  have no: "sample_answers ''ghost'' = None" by (simp add: sample_answers_def)
  have first: "find (\<lambda>n. sample_answers n = None) (placeholders ghost_segments) = Some ''ghost''"
    by (simp add: ps sample_answers_def)
  from render_unresolved_placeholder
    [where answers = sample_answers and k = "''ghost''" and address = here,
      OF sk plain el name no] kw first
  have "build here (template_of (JStr ''T'') sample_keys (skeleton_text ghost_segments))
      sample_answers = Inl (KeyError ''ghost'')" by simp
  with tx show ?thesis by (rule conjI)
qed

text \<open>
  A positional field raises IndexError although the placeholder ghost after it has no
  entry; no key is named, and \<open>build_story\<close> does not turn the error into its own.
\<close>

theorem positional_field_not_named:
  "sample_answers ''0'' = None \<and> sample_answers ''ghost'' = None \<and>
   build here (template_of (JStr ''T'') sample_keys positional_skeleton) sample_answers =
     Inl IndexError \<and>
   build_story here (template_of (JStr ''T'') sample_keys positional_skeleton) sample_lines =
     Inl IndexError"
proof -
  have "sample_answers ''0'' = None" and "sample_answers ''ghost'' = None"
    by (simp_all add: sample_answers_def)
  moreover have "build here (template_of (JStr ''T'') sample_keys positional_skeleton)
      sample_answers = Inl IndexError"
    by code_simp
  moreover have "build_story here (template_of (JStr ''T'') sample_keys positional_skeleton)
      sample_lines = Inl IndexError"
    by code_simp
  ultimately show ?thesis by blast
qed

text \<open>
  C9, as the program behaves. On a skeleton that is literal text with placeholders whose
  names are plain, the result of \<open>build\<close> is determined by the skeleton and the answers:
  two calls that agree on both give the same text or the same exception, wherever the
  answers live and whatever else the templates hold.
\<close>

theorem build_deterministic:
  assumes "skeleton t1 = JStr (skeleton_text segments)"
    and "skeleton t2 = skeleton t1"
    and "list_all plain_name (placeholders segments)"
    and "\<And>n. a1 n = a2 n"
  shows "build address1 t1 a1 = build address2 t2 a2"
proof -
  from assms(4) have "a1 = a2" by (rule ext)
  moreover from assms(1,2) have "skeleton t2 = JStr (skeleton_text segments)" by simp
  ultimately show ?thesis
    using substitute_address [OF assms(3), of address1 a2 address2]
    by (simp add: build_segments [OF assms(1,3)] build_segments [OF _ assms(3)])
qed

text \<open>
  Two templates that differ in title and blanks but share the skeleton, rendered with
  the answers in two different places.
\<close>

theorem build_deterministic_witness:
  "build here (template_of (JStr ''T'') sample_keys (skeleton_text sample_segments)) sample_answers =
   build there (template_of (JStr ''Another title'') malformed_keys (skeleton_text sample_segments))
     sample_answers"
proof -
  have s1: "skeleton (template_of (JStr ''T'') sample_keys (skeleton_text sample_segments)) =
      JStr (skeleton_text sample_segments)"
    by (simp add: template_of_def)
  have s2: "skeleton (template_of (JStr ''Another title'') malformed_keys
                (skeleton_text sample_segments)) =
            skeleton (template_of (JStr ''T'') sample_keys (skeleton_text sample_segments))"
    by (simp add: template_of_def)
  have plain: "list_all plain_name (placeholders sample_segments)" by code_simp
  have a: "\<And>n. sample_answers n = sample_answers n" by simp
  from build_deterministic [OF s1 s2 plain a] show ?thesis .
qed

text \<open>
  A placeholder that names a method of the answer is replaced by the text Python prints
  for the bound method, which holds the address of the answer: the same answers in two
  places give two different texts.
\<close>

theorem method_placeholder_shows_address:
  "build here (template_of (JStr ''T'') sample_keys method_skeleton) sample_answers =
     Inr ''<built-in method upper of str object at 0x7f65e10a0800>'' \<and>
   build there (template_of (JStr ''T'') sample_keys method_skeleton) sample_answers =
     Inr ''<built-in method upper of str object at 0x7f65e10cdfb0>'' \<and>
   build here (template_of (JStr ''T'') sample_keys method_skeleton) sample_answers \<noteq>
     build there (template_of (JStr ''T'') sample_keys method_skeleton) sample_answers"
proof -
  have h: "build here (template_of (JStr ''T'') sample_keys method_skeleton) sample_answers =
     Inr ''<built-in method upper of str object at 0x7f65e10a0800>''"
    by code_simp
  have t: "build there (template_of (JStr ''T'') sample_keys method_skeleton) sample_answers =
     Inr ''<built-in method upper of str object at 0x7f65e10cdfb0>''"
    by code_simp
  have "(''<built-in method upper of str object at 0x7f65e10a0800>'' :: string) \<noteq>
     ''<built-in method upper of str object at 0x7f65e10cdfb0>''"
    by simp
  with h t show ?thesis by simp
qed

text \<open>
  C10, as the program behaves. Let the skeleton be literal text with placeholders whose
  names are plain. An entry for a key that no placeholder names changes nothing: \<open>build\<close>
  gives the same result with that entry removed, and there is no error for an unused
  answer. When moreover every placeholder is a keyword name with an entry, \<open>build\<close>
  succeeds.
\<close>

theorem unused_answer_ignored:
  assumes "skeleton template = JStr (skeleton_text segments)"
    and "list_all plain_name (placeholders segments)"
    and "extra \<notin> set (placeholders segments)"
    and "answers extra \<noteq> None"
  shows "build address template (answers(extra := None)) = build address template answers \<and>
         (list_all keyword_name (placeholders segments) \<and>
          list_all (\<lambda>n. answers n \<noteq> None) (placeholders segments) \<longrightarrow>
            build address template answers = Inr (filled answers segments))"
proof (intro conjI impI)
  have "substitute address (answers(extra := None)) (items_of segments) =
        substitute address answers (items_of segments)"
    using assms(2,3) by (rule substitute_unused)
  then show "build address template (answers(extra := None)) = build address template answers"
    by (simp only: build_segments [OF assms(1,2)])
next
  assume "list_all keyword_name (placeholders segments) \<and>
          list_all (\<lambda>n. answers n \<noteq> None) (placeholders segments)"
  then have "substitute address answers (items_of segments) = Inr (filled answers segments)"
    by (simp add: substitute_filled)
  then show "build address template answers = Inr (filled answers segments)"
    by (simp only: build_segments [OF assms(1,2)])
qed

text \<open>The short skeleton uses one of the eight answers; the answer for food is unused.\<close>

theorem unused_answer_ignored_witness:
  "skeleton_text short_segments = ''A wild {animal} appeared.'' \<and>
   build here (template_of (JStr ''T'') sample_keys (skeleton_text short_segments)) sample_answers =
     Inr ''A wild walrus appeared.'' \<and>
   build here (template_of (JStr ''T'') sample_keys (skeleton_text short_segments))
     (sample_answers(''food'' := None)) =
     Inr ''A wild walrus appeared.''"
proof -
  have sk: "skeleton (template_of (JStr ''T'') sample_keys (skeleton_text short_segments)) =
      JStr (skeleton_text short_segments)"
    by (simp add: template_of_def)
  have tx: "skeleton_text short_segments = ''A wild {animal} appeared.''" by code_simp
  have ps: "placeholders short_segments = [''animal'']" by code_simp
  have plain: "list_all plain_name (placeholders short_segments)" by code_simp
  have kw: "list_all keyword_name (placeholders short_segments)" by code_simp
  have ans: "list_all (\<lambda>n. sample_answers n \<noteq> None) (placeholders short_segments)"
    by (simp add: ps sample_answers_def)
  have un: "''food'' \<notin> set (placeholders short_segments)" by (simp add: ps)
  have ex: "sample_answers ''food'' \<noteq> None" by (simp add: sample_answers_def)
  have out: "filled sample_answers short_segments = ''A wild walrus appeared.''"
    by code_simp
  note th = unused_answer_ignored
    [where answers = sample_answers and extra = "''food''" and address = here,
      OF sk plain un ex]
  from th kw ans have 1: "build here
      (template_of (JStr ''T'') sample_keys (skeleton_text short_segments)) sample_answers =
      Inr (filled sample_answers short_segments)" by blast
  from th have 2: "build here
      (template_of (JStr ''T'') sample_keys (skeleton_text short_segments))
      (sample_answers(''food'' := None)) =
    build here (template_of (JStr ''T'') sample_keys (skeleton_text short_segments))
      sample_answers" by blast
  from 1 2 tx show ?thesis by (simp only: out)
qed

text \<open>
  The placeholder 9 has an entry and the entry for food is unused, yet \<open>build\<close> raises
  IndexError: a numeric placeholder is looked up among the positional arguments.
\<close>

theorem numbered_placeholder_fails:
  "numbered_answers ''9'' = Some ''nine'' \<and> numbered_answers ''food'' = Some ''plums'' \<and>
   build here (template_of (JStr ''T'') sample_keys numbered_skeleton) numbered_answers =
     Inl IndexError"
proof -
  have "numbered_answers ''9'' = Some ''nine''" and "numbered_answers ''food'' = Some ''plums''"
    by (simp_all add: numbered_answers_def)
  moreover have "build here (template_of (JStr ''T'') sample_keys numbered_skeleton)
      numbered_answers = Inl IndexError"
    by code_simp
  ultimately show ?thesis by blast
qed

subsection \<open>The answers that build\_story collects\<close>

lemma prompt_loop_dom:
  "map key bs = map JStr keys \<Longrightarrow> map prompt bs = map JStr prompts \<Longrightarrow>
   length bs \<le> length stdin \<Longrightarrow>
   \<exists>result. prompt_loop bs stdin answers = Inr result \<and> dom result = dom answers \<union> set keys"
proof (induction bs arbitrary: keys prompts stdin answers)
  case Nil
  then show ?case by simp
next
  case (Cons b bs)
  from Cons.prems(1) obtain k ks
    where k: "keys = k # ks" "key b = JStr k" "map key bs = map JStr ks"
    by (cases keys) auto
  from Cons.prems(2) obtain p ps
    where p: "prompts = p # ps" "prompt b = JStr p" "map prompt bs = map JStr ps"
    by (cases prompts) auto
  from Cons.prems(3) obtain line lines
    where l: "stdin = line # lines" "length bs \<le> length lines"
    by (cases stdin) auto
  from Cons.IH [OF k(3) p(3) l(2), of "answers(k \<mapsto> strip line)"]
  obtain result where "prompt_loop bs lines (answers(k \<mapsto> strip line)) = Inr result"
    "dom result = dom (answers(k \<mapsto> strip line)) \<union> set ks" by blast
  then show ?case using k p l by auto
qed

text \<open>
  With string keys and prompts and a line for every blank, the answers have exactly the
  keys of the blanks, whether the skeleton names them or not.
\<close>

lemma prompt_for_words_dom:
  assumes "map key bs = map JStr keys" and "map prompt bs = map JStr prompts"
    and "length bs \<le> length stdin"
  shows "\<exists>answers. prompt_for_words bs stdin = Inr answers \<and> dom answers = set keys"
  using prompt_loop_dom [OF assms, of Map.empty] by (simp add: prompt_for_words_def)

text \<open>
  A skeleton whose placeholders are all keys of blanks is filled in; the answers of the
  blanks it does not name are dropped without notice.
\<close>

lemma build_story_ok:
  assumes "map key (blanks t) = map JStr keys" and "map prompt (blanks t) = map JStr prompts"
    and "length (blanks t) \<le> length stdin"
    and "skeleton t = JStr (skeleton_text segments)"
    and "list_all keyword_name (placeholders segments)"
    and "set (placeholders segments) \<subseteq> set keys"
  shows "\<exists>answers. prompt_for_words (blanks t) stdin = Inr answers \<and> dom answers = set keys \<and>
           build_story address t stdin = Inr (filled answers segments)"
proof -
  from prompt_for_words_dom [OF assms(1-3)] obtain answers
    where a: "prompt_for_words (blanks t) stdin = Inr answers" "dom answers = set keys"
    by blast
  from assms(5) have plain: "list_all plain_name (placeholders segments)"
    by (simp add: list_all_iff keyword_name_plain)
  from a(2) assms(6) have "list_all (\<lambda>n. answers n \<noteq> None) (placeholders segments)"
    by (auto simp: list_all_iff)
  with assms(5) have "substitute address answers (items_of segments) =
      Inr (filled answers segments)"
    by (rule substitute_filled)
  then have "build address t answers = Inr (filled answers segments)"
    by (simp only: build_segments [OF assms(4) plain])
  with a show ?thesis by (simp add: build_story_def)
qed

text \<open>
  A skeleton that names a key no blank has: the KeyError of \<open>build\<close> comes back as the
  RuntimeError that quotes the key.
\<close>

lemma build_story_missing_answer:
  assumes "map key (blanks t) = map JStr keys" and "map prompt (blanks t) = map JStr prompts"
    and "length (blanks t) \<le> length stdin"
    and "skeleton t = JStr (skeleton_text segments)"
    and "list_all keyword_name (placeholders segments)"
    and "find (\<lambda>n. n \<notin> set keys) (placeholders segments) = Some k"
    and "py_repr k = Some r"
  shows "build_story address t stdin =
           Inl (RuntimeError (''Missing answer for placeholder: '' @ r))"
proof -
  from prompt_for_words_dom [OF assms(1-3)] obtain answers
    where a: "prompt_for_words (blanks t) stdin = Inr answers" "dom answers = set keys"
    by blast
  from assms(5) have plain: "list_all plain_name (placeholders segments)"
    by (simp add: list_all_iff keyword_name_plain)
  have "(\<lambda>n. answers n = None) = (\<lambda>n. n \<notin> set keys)"
  proof
    fix n
    show "(answers n = None) = (n \<notin> set keys)"
      using a(2) by (metis domIff)
  qed
  with assms(6) have "find (\<lambda>n. answers n = None) (placeholders segments) = Some k"
    by simp
  with assms(5) have "substitute address answers (items_of segments) = Inl (KeyError k)"
    by (rule substitute_first_missing)
  then have "build address t answers = Inl (KeyError k)"
    by (simp only: build_segments [OF assms(4) plain])
  with a assms(7) show ?thesis by (simp add: build_story_def)
qed

lemma build_story_ghost:
  "build_story here (template_of (JStr ''T'') sample_keys (skeleton_text ghost_segments))
     sample_lines =
   Inl (RuntimeError (''Missing answer for placeholder: '' @ [CHR 0x27] @ ''ghost'' @ [CHR 0x27]))"
  by code_simp

text \<open>
  C1, as the program behaves. Take a payload with a string title and 8 to 10 blanks with
  string keys and prompts, whose keys are distinct identifiers that are keyword names (no
  key opens with a run of digits beyond the largest machine integer), and whose skeleton
  is literal text, each brace of it doubled, with one placeholder in braces per key. It
  is accepted, and \<open>build\<close> on the resulting template with an answer for every key returns
  the text with every placeholder replaced by its answer. No placeholder is left: every
  brace in the output comes from an answer or from the literal text, so without those the
  output has no brace.
\<close>

theorem validate_then_render:
  assumes "getitem v ''title'' = Inr (JStr t)"
    and "getitem v ''skeleton'' = Inr (JStr (skeleton_text segments))"
    and "getitem v ''blanks'' = Inr (JArr items)"
    and "map (\<lambda>i. getitem i ''key'') items = map Inr (map JStr keys)"
    and "map (\<lambda>i. getitem i ''prompt'') items = map Inr (map JStr prompts)"
    and "8 \<le> length items" and "length items \<le> 10"
    and "distinct keys" and "list_all is_identifier keys"
    and "list_all keyword_name keys"
    and "distinct (placeholders segments)"
    and "set (placeholders segments) = set keys"
    and "list_all (\<lambda>k. answers k \<noteq> None) keys"
  shows "(let template = \<lparr>title = JStr t,
                           blanks = blanks_of (map JStr keys) (map JStr prompts),
                           skeleton = JStr (skeleton_text segments)\<rparr>
          in parse_template_value v = Inr template \<and>
             build address template answers = Inr (filled answers segments)) \<and>
         (\<not> has_brace (plain_text segments) \<and>
          list_all (\<lambda>k. case answers k of None \<Rightarrow> True | Some a \<Rightarrow> \<not> has_brace a) keys
          \<longrightarrow> \<not> has_brace (filled answers segments))"
proof -
  let ?T = "\<lparr>title = JStr t, blanks = blanks_of (map JStr keys) (map JStr prompts),
             skeleton = JStr (skeleton_text segments)\<rparr>"
  let ?ps = "placeholders segments"
  have p: "parse_template_value v = Inr ?T"
    using assms(1-7) by (rule parse_template_value_ok)
  have kw: "list_all keyword_name ?ps" using assms(10) assms(12) by (rule list_all_same_set)
  then have plain: "list_all plain_name ?ps" by (simp add: list_all_iff keyword_name_plain)
  have ans: "list_all (\<lambda>k. answers k \<noteq> None) ?ps"
    using assms(13) assms(12) by (rule list_all_same_set)
  have "substitute address answers (items_of segments) = Inr (filled answers segments)"
    using kw ans by (rule substitute_filled)
  moreover have "skeleton ?T = JStr (skeleton_text segments)" by simp
  ultimately have b: "build address ?T answers = Inr (filled answers segments)"
    using plain by (simp only: build_segments)
  have nb: "\<not> has_brace (plain_text segments) \<and>
            list_all (\<lambda>k. case answers k of None \<Rightarrow> True | Some a \<Rightarrow> \<not> has_brace a) keys
            \<longrightarrow> \<not> has_brace (filled answers segments)"
  proof
    assume a: "\<not> has_brace (plain_text segments) \<and>
            list_all (\<lambda>k. case answers k of None \<Rightarrow> True | Some a \<Rightarrow> \<not> has_brace a) keys"
    then have "list_all (\<lambda>k. case answers k of None \<Rightarrow> True | Some a \<Rightarrow> \<not> has_brace a) ?ps"
      using assms(12) list_all_same_set by blast
    with a show "\<not> has_brace (filled answers segments)"
      using filled_no_brace by blast
  qed
  from p b nb show ?thesis by (simp add: Let_def)
qed

text \<open>The sample payload with eight blanks and its answers.\<close>

theorem validate_then_render_witness:
  "skeleton_text sample_segments = sample_skeleton \<and>
   parse_template_value (payload (JStr ''T'') sample_keys sample_skeleton)
     = Inr (template_of (JStr ''T'') sample_keys sample_skeleton) \<and>
   build here (template_of (JStr ''T'') sample_keys sample_skeleton) sample_answers
     = Inr ''A wild walrus from Oslo likes to sing with Ada, eats nine red plums.'' \<and>
   \<not> has_brace ''A wild walrus from Oslo likes to sing with Ada, eats nine red plums.''"
proof -
  have tx: "skeleton_text sample_segments = sample_skeleton" by code_simp
  note p = sample_payload [of "JStr ''T''" sample_keys "skeleton_text sample_segments"]
  note i = sample_items [of sample_keys]
  have n: "8 \<le> length (map blank_item sample_keys)" "length (map blank_item sample_keys) \<le> 10"
    by (simp_all add: sample_keys_def)
  have d: "distinct sample_keys" by (simp add: sample_keys_def)
  have ident: "list_all is_identifier sample_keys" by code_simp
  have kw: "list_all keyword_name sample_keys" by code_simp
  have ps: "placeholders sample_segments =
      [''adjective'', ''animal'', ''place'', ''verb'', ''name'', ''number'', ''colour'', ''food'']"
    by code_simp
  have once: "distinct (placeholders sample_segments)" by (simp add: ps)
  have same: "set (placeholders sample_segments) = set sample_keys"
    by (auto simp add: ps sample_keys_def)
  have complete: "list_all (\<lambda>k. sample_answers k \<noteq> None) sample_keys"
    by (simp add: sample_keys_def sample_answers_def)
  have out: "filled sample_answers sample_segments =
      ''A wild walrus from Oslo likes to sing with Ada, eats nine red plums.''"
    by code_simp
  have lit: "\<not> has_brace (plain_text sample_segments)" by code_simp
  have clean: "list_all (\<lambda>k. case sample_answers k of None \<Rightarrow> True | Some a \<Rightarrow> \<not> has_brace a)
      sample_keys"
    by code_simp
  note th = validate_then_render
    [where address = here, OF p i n d ident kw once same complete]
  from th lit clean tx show ?thesis
    unfolding Let_def sample_template out tx by blast
qed

text \<open>
  The same payload with a stray closing brace at the end of the skeleton: the keys are
  distinct identifiers and each has its placeholder, the payload is accepted, and \<open>build\<close>
  raises ValueError.
\<close>

theorem stray_brace_breaks_render:
  "stray_skeleton = skeleton_text sample_segments @ '' :-}'' \<and>
   distinct sample_keys \<and> list_all is_identifier sample_keys \<and>
   distinct (placeholders sample_segments) \<and>
   set (placeholders sample_segments) = set sample_keys \<and>
   parse_template_value (payload (JStr ''T'') sample_keys stray_skeleton) =
     Inr (template_of (JStr ''T'') sample_keys stray_skeleton) \<and>
   build here (template_of (JStr ''T'') sample_keys stray_skeleton) sample_answers =
     Inl (ValueError ''Single '}' encountered in format string'')"
proof -
  have "stray_skeleton = skeleton_text sample_segments @ '' :-}''" by code_simp
  moreover have "distinct sample_keys" by (simp add: sample_keys_def)
  moreover have "list_all is_identifier sample_keys" by code_simp
  moreover have ps: "placeholders sample_segments =
      [''adjective'', ''animal'', ''place'', ''verb'', ''name'', ''number'', ''colour'', ''food'']"
    by code_simp
  moreover have "distinct (placeholders sample_segments)" by (simp add: ps)
  moreover have "set (placeholders sample_segments) = set sample_keys"
    by (auto simp add: ps sample_keys_def)
  moreover have "parse_template_value (payload (JStr ''T'') sample_keys stray_skeleton) =
     Inr (template_of (JStr ''T'') sample_keys stray_skeleton)"
  proof -
    have n: "8 \<le> length (map blank_item sample_keys)"
      "length (map blank_item sample_keys) \<le> 10"
      by (simp_all add: sample_keys_def)
    from parse_template_value_ok
      [OF sample_payload [of "JStr ''T''" sample_keys stray_skeleton]
        sample_items [of sample_keys] n]
    show ?thesis by (simp only: sample_template)
  qed
  moreover have "build here (template_of (JStr ''T'') sample_keys stray_skeleton)
      sample_answers = Inl (ValueError ''Single '}' encountered in format string'')"
    by code_simp
  ultimately show ?thesis by blast
qed

end
